theory Spec2Isabelle
  imports Complex_Main "HOL-Library.Char_ord" "HOL-Library.List_Lexorder"
begin

section \<open>Python values\<close>

text \<open>
  The notebook \<open>nb4_cross_validation.ipynb\<close> passes plain Python values as keyword
  arguments and as hyperparameter candidates. A float literal is kept as the real number its
  decimal text denotes.
\<close>

datatype pyval = PNone | PBool bool | PInt int | PFloat real | PStr string

type_synonym kwargs = "(string \<times> pyval) list"

text \<open>
  \<open>shuffle: Optional[bool] = None\<close>: an omitted argument is \<open>None\<close>; the test
  \<open>if shuffle:\<close> takes the branch for \<open>True\<close> only.
\<close>

fun truthy :: "bool option \<Rightarrow> bool" where
  "truthy None = False"
| "truthy (Some b) = b"

section \<open>The statistics and the format of the summary line\<close>

text \<open>
  \<open>kfold_score.mean()\<close> and \<open>kfold_score.std()\<close> of a numpy array: the arithmetic mean
  and the population standard deviation (\<open>ddof = 0\<close>). The scores are modelled as real
  numbers, so the rounding of binary floating point is not part of the model, and numpy's
  \<open>nan\<close> for an empty array is not represented (\<open>mean [] = 0\<close> here).
\<close>

definition mean :: "real list \<Rightarrow> real" where
  "mean xs = sum_list xs / real (length xs)"

definition std :: "real list \<Rightarrow> real" where
  "std xs = sqrt (mean (map (\<lambda>v. (v - mean xs)\<^sup>2) xs))"

text \<open>
  The conversion \<open>%0.2f\<close>: the value rounded to two decimals (a tie goes to the even
  digit), printed with its sign, its integer digits, a point and two fraction digits.
\<close>

definition round_half_even :: "real \<Rightarrow> int" where
  "round_half_even r =
     (let f = \<lfloor>r\<rfloor>; d = r - of_int f
      in if d < 1 / 2 then f else if 1 / 2 < d then f + 1 else if even f then f else f + 1)"

definition digit_char :: "nat \<Rightarrow> char" where
  "digit_char d = ''0123456789'' ! d"

function show_nat :: "nat \<Rightarrow> string" where
  "show_nat n = (if n < 10 then [digit_char n] else show_nat (n div 10) @ [digit_char (n mod 10)])"
  by pat_completeness auto
termination
  by (relation "measure id") auto

declare show_nat.simps [simp del]

definition fmt_02f :: "real \<Rightarrow> string" where
  "fmt_02f v =
     (let h = nat (round_half_even (\<bar>v\<bar> * 100))
      in (if v < 0 then ''-'' else '''') @ show_nat (h div 100) @ ''.'' @
         [digit_char (h mod 100 div 10), digit_char (h mod 10)])"

text \<open>\<open>"%s: %0.2f (+/- %0.2f)" % (title, a, b)\<close>\<close>

definition summary_line :: "string \<Rightarrow> real \<Rightarrow> real \<Rightarrow> string" where
  "summary_line title a b = title @ '': '' @ fmt_02f a @ '' (+/- '' @ fmt_02f b @ '')''"

section \<open>Data frames\<close>

text \<open>
  The table \<open>read_csv\<close> returns: the column names and the rows, each row holding one cell
  per column. A series is one column of cells.
\<close>

record frame =
  columns :: "string list"
  rows :: "pyval list list"

type_synonym series = "pyval list"

section \<open>The library boundary: events and the world\<close>

text \<open>
  Everything the notebook does goes through pandas, scikit-learn or \<open>print\<close>. None of that
  code is part of the repository, so each call is recorded as an event, in program order,
  and its result is supplied from outside (a function parameter). The world carries the
  state of numpy's global random generator, which unseeded library calls read and advance,
  and the events so far. The generator state stands for whatever the library keeps and may
  change from one call to the next; its type is left open.
\<close>

datatype estimator = RandomForestClassifier kwargs

datatype display = Out_frame frame | Out_params kwargs | Out_float real

datatype ('x, 'y, 'cv) event =
    Ev_read_csv string
  | Ev_display display
  | Ev_print string
  | Ev_new_estimator estimator
  | Ev_validator kwargs
  | Ev_cross_val_score estimator 'x 'y 'cv string
  | Ev_train_test_split 'x 'y kwargs
  | Ev_GridSearchCV estimator "(string \<times> pyval list) list"
  | Ev_fit 'x 'y
  | Ev_score 'x 'y

record ('g, 'x, 'y, 'cv) world =
  rng :: 'g
  trace :: "('x, 'y, 'cv) event list"

definition emit ::
  "('x, 'y, 'cv) event \<Rightarrow> ('g, 'x, 'y, 'cv, 'm) world_scheme \<Rightarrow> ('g, 'x, 'y, 'cv, 'm) world_scheme"
where
  "emit ev w = w\<lparr>trace := trace w @ [ev]\<rparr>"

text \<open>What a trace shows: the lines printed, the keyword arguments of each call of the
  validator, and the arguments of each call of \<open>cross_val_score\<close>.\<close>

fun printed :: "('x, 'y, 'cv) event list \<Rightarrow> string list" where
  "printed [] = []"
| "printed (Ev_print s # es) = s # printed es"
| "printed (_ # es) = printed es"

fun validator_calls :: "('x, 'y, 'cv) event list \<Rightarrow> kwargs list" where
  "validator_calls [] = []"
| "validator_calls (Ev_validator kw # es) = kw # validator_calls es"
| "validator_calls (_ # es) = validator_calls es"

fun scoring_calls ::
  "('x, 'y, 'cv) event list \<Rightarrow> (estimator \<times> 'x \<times> 'y \<times> 'cv \<times> string) list"
where
  "scoring_calls [] = []"
| "scoring_calls (Ev_cross_val_score est x y cv scoring # es) =
     (est, x, y, cv, scoring) # scoring_calls es"
| "scoring_calls (_ # es) = scoring_calls es"

section \<open>\<open>rate_accuracy\<close>\<close>

text \<open>
  The helper of the notebook, statement by statement. \<open>validator\<close> is the callable it is
  given (a splitter class): called with keyword arguments it returns a splitter or raises.
  \<open>cross_val_score\<close> is the imported routine: it returns the per-fold scores or raises, and
  it may advance the global random generator (the forest is built without a seed). An
  exception ends the call at once and becomes the result \<open>Inl e\<close>; the normal result is
  Python's \<open>None\<close>, the value of type \<open>unit\<close>.
\<close>

definition rate_accuracy ::
  "(estimator \<Rightarrow> 'x \<Rightarrow> 'y \<Rightarrow> 'cv \<Rightarrow> string \<Rightarrow> 'g \<Rightarrow> ('e + real list) \<times> 'g) \<Rightarrow>
   'x \<Rightarrow> 'y \<Rightarrow> string \<Rightarrow> (kwargs \<Rightarrow> 'e + 'cv) \<Rightarrow> bool option \<Rightarrow> int \<Rightarrow>
   ('g, 'x, 'y, 'cv, 'm) world_scheme \<Rightarrow> ('e + unit) \<times> ('g, 'x, 'y, 'cv, 'm) world_scheme"
where
  "rate_accuracy cross_val_score x y title validator shuffle n_splits w =
     (let random_forest = RandomForestClassifier [];
          w1 = emit (Ev_new_estimator random_forest) w;
          kw1 = [(''n_splits'', PInt n_splits)];
          w2 = emit (Ev_validator kw1) w1
      in case validator kw1 of
           Inl e \<Rightarrow> (Inl e, w2)
         | Inr first_initialized \<Rightarrow>
             (let kw2 = [(''n_splits'', PInt n_splits), (''shuffle'', PBool True),
                         (''random_state'', PInt 52)];
                  w3 = (if truthy shuffle then emit (Ev_validator kw2) w2 else w2)
              in case (if truthy shuffle then validator kw2 else Inr first_initialized) of
                   Inl e \<Rightarrow> (Inl e, w3)
                 | Inr validator_initialized \<Rightarrow>
                     (let w4 = emit (Ev_cross_val_score random_forest x y validator_initialized
                                       ''accuracy'') w3;
                          (res, g) = cross_val_score random_forest x y validator_initialized
                                       ''accuracy'' (rng w4);
                          w5 = w4\<lparr>rng := g\<rparr>
                      in case res of
                           Inl e \<Rightarrow> (Inl e, w5)
                         | Inr kfold_score \<Rightarrow>
                             (Inr (),
                              emit (Ev_print (summary_line title (mean kfold_score)
                                                (std kfold_score * 2))) w5))))"

text \<open>The events one call adds to the trace.\<close>

definition new_events ::
  "('g, 'x, 'y, 'cv, 'm) world_scheme \<Rightarrow> ('g, 'x, 'y, 'cv, 'm) world_scheme \<Rightarrow> ('x, 'y, 'cv) event list"
where
  "new_events w w' = drop (length (trace w)) (trace w')"

definition call_events ::
  "(estimator \<Rightarrow> 'x \<Rightarrow> 'y \<Rightarrow> 'cv \<Rightarrow> string \<Rightarrow> 'g \<Rightarrow> ('e + real list) \<times> 'g) \<Rightarrow>
   'x \<Rightarrow> 'y \<Rightarrow> string \<Rightarrow> (kwargs \<Rightarrow> 'e + 'cv) \<Rightarrow> bool option \<Rightarrow> int \<Rightarrow>
   ('g, 'x, 'y, 'cv, 'm) world_scheme \<Rightarrow> ('x, 'y, 'cv) event list"
where
  "call_events cross_val_score x y title validator shuffle n_splits w =
     new_events w (snd (rate_accuracy cross_val_score x y title validator shuffle n_splits w))"

text \<open>The splitters a trace shows being handed to \<open>cross_val_score\<close>.\<close>

definition splitters_scored :: "('x, 'y, 'cv) event list \<Rightarrow> 'cv list" where
  "splitters_scored es = map (\<lambda>c. fst (snd (snd (snd c)))) (scoring_calls es)"

section \<open>The cells of the notebook\<close>

subsection \<open>Library routines the cells call\<close>

text \<open>
  An exception is one the model itself raises for a library routine (\<open>IndexError\<close>,
  \<open>ValueError\<close>) or any other one the library raises (\<open>Raised e\<close>).
\<close>

datatype 'e exn = IndexError | ValueError | Raised 'e

text \<open>Python's \<open>xs[start:stop]\<close>: a negative bound counts from the end, and both are
  clipped to the list.\<close>

definition py_slice :: "int \<Rightarrow> int \<Rightarrow> 'a list \<Rightarrow> 'a list" where
  "py_slice start stop xs =
     (let n = int (length xs);
          lo = (if start < 0 then max 0 (n + start) else min n start);
          hi = (if stop < 0 then max 0 (n + stop) else min n stop)
      in take (nat (hi - lo)) (drop (nat lo) xs))"

text \<open>\<open>df.iloc[:, start:stop]\<close> keeps every row and the columns of the slice;
  \<open>df.iloc[:, j]\<close> is column \<open>j\<close> as a series, and raises \<open>IndexError\<close> when there is no
  such column; \<open>df.head()\<close> is the first five rows.\<close>

definition iloc_cols :: "int \<Rightarrow> int \<Rightarrow> frame \<Rightarrow> frame" where
  "iloc_cols start stop df =
     \<lparr>columns = py_slice start stop (columns df), rows = map (py_slice start stop) (rows df)\<rparr>"

definition iloc_col :: "int \<Rightarrow> frame \<Rightarrow> 'e exn + series" where
  "iloc_col j df =
     (let n = int (length (columns df)); k = (if j < 0 then n + j else j)
      in if 0 \<le> k \<and> k < n then Inr (map (\<lambda>r. r ! nat k) (rows df)) else Inl IndexError)"

definition head :: "frame \<Rightarrow> frame" where
  "head df = df\<lparr>rows := take 5 (rows df)\<rparr>"

definition take_rows :: "frame \<Rightarrow> nat list \<Rightarrow> frame" where
  "take_rows df idx = df\<lparr>rows := map (\<lambda>i. rows df ! i) idx\<rparr>"

text \<open>
  The three splitter classes the notebook imports and hands to \<open>rate_accuracy\<close>. An instance
  keeps its class and the keyword arguments it was built with. A random generator is either
  a fresh one made from an integer seed or numpy's global one: \<open>random_state=None\<close> (also
  when the argument is left out) means the global generator, an integer means a generator
  that depends on that integer only.
\<close>

datatype validator = KFold | StratifiedKFold | StratifiedShuffleSplit

datatype splitter = Splitter validator kwargs

datatype 'g rng_source = Seeded int | Global 'g

fun check_random_state :: "pyval option \<Rightarrow> 'g \<Rightarrow> 'g rng_source" where
  "check_random_state (Some (PInt seed)) g = Seeded seed"
| "check_random_state _ g = Global g"

text \<open>
  What the libraries compute is not in the repository; it is a parameter of the model:
  the file system and the parser behind \<open>read_csv\<close>, the argument checks of the splitter
  constructors, \<open>cross_val_score\<close>, the permutation a random generator draws, the folds a
  splitter cuts, the mean test score \<open>GridSearchCV\<close> gives one candidate, and the score of
  the refitted search on held-out data.
\<close>

record ('e, 'g) library =
  lib_read_csv :: "string \<Rightarrow> 'e exn + frame"
  lib_init_error :: "validator \<Rightarrow> kwargs \<Rightarrow> 'e exn option"
  lib_cross_val_score ::
    "estimator \<Rightarrow> frame \<Rightarrow> series \<Rightarrow> splitter \<Rightarrow> string \<Rightarrow> 'g \<Rightarrow> ('e exn + real list) \<times> 'g"
  lib_permutation :: "'g rng_source \<Rightarrow> nat \<Rightarrow> nat list"
  lib_folds :: "splitter \<Rightarrow> 'g rng_source \<Rightarrow> series \<Rightarrow> (nat list \<times> nat list) list"
  lib_mean_test_score ::
    "estimator \<Rightarrow> frame \<Rightarrow> series \<Rightarrow> kwargs \<Rightarrow> 'g \<Rightarrow> ('e exn + real) \<times> 'g"
  lib_score ::
    "estimator \<Rightarrow> kwargs \<Rightarrow> frame \<Rightarrow> series \<Rightarrow> frame \<Rightarrow> series \<Rightarrow> 'g \<Rightarrow> ('e exn + real) \<times> 'g"

text \<open>Calling a splitter class: the constructor checks its arguments and, if it accepts
  them, the instance holds them.\<close>

definition construct :: "('e, 'g) library \<Rightarrow> validator \<Rightarrow> kwargs \<Rightarrow> 'e exn + splitter" where
  "construct lib c kw =
     (case lib_init_error lib c kw of Some e \<Rightarrow> Inl e | None \<Rightarrow> Inr (Splitter c kw))"

text \<open>The folds a splitter cuts when \<open>cross_val_score\<close> asks it: drawn from the generator
  its \<open>random_state\<close> argument names.\<close>

fun fold_assignment ::
  "('e, 'g) library \<Rightarrow> splitter \<Rightarrow> 'g \<Rightarrow> series \<Rightarrow> (nat list \<times> nat list) list"
where
  "fold_assignment lib (Splitter c kw) g y =
     lib_folds lib (Splitter c kw) (check_random_state (map_of kw ''random_state'') g) y"

text \<open>
  Modelled from the spec: \<open>train_test_split\<close> is scikit-learn's and is not among the
  sources. The spec asks of the data only "consistent row counts between features and
  labels" and describes cross-validation as "repeated train/test partitioning"; the model
  is the routine's documented behaviour: arrays of different lengths are refused, the test
  part has \<open>ceil(test_size * n)\<close> rows and the training part the rest, one permutation of
  the row numbers is drawn from the generator \<open>random_state\<close> names, its first \<open>n_test\<close>
  entries are the test rows and the following ones the training rows, and the same row
  numbers select from the features and from the labels.
\<close>

definition train_test_split ::
  "('g rng_source \<Rightarrow> nat \<Rightarrow> nat list) \<Rightarrow> frame \<Rightarrow> series \<Rightarrow> real \<Rightarrow> pyval option \<Rightarrow> 'g \<Rightarrow>
   'e exn + (frame \<times> frame \<times> series \<times> series)"
where
  "train_test_split permutation x y test_size random_state g =
     (let n = length (rows x)
      in if length y \<noteq> n \<or> test_size \<le> 0 \<or> 1 \<le> test_size then Inl ValueError
         else
           (let n_test = nat \<lceil>test_size * real n\<rceil>; n_train = n - n_test
            in if n_train = 0 then Inl ValueError
               else
                 (let p = permutation (check_random_state random_state g) n;
                      test = take n_test p;
                      train = take n_train (drop n_test p)
                  in Inr (take_rows x train, take_rows x test,
                          map (\<lambda>i. y ! i) train, map (\<lambda>i. y ! i) test))))"

text \<open>
  Modelled from the spec: \<open>GridSearchCV\<close> is scikit-learn's and is not among the sources.
  The spec: a hyperparameter grid is "a mapping from parameter name to a tuple of candidate
  values", and grid search is an "exhaustive search over a Cartesian product of
  hyperparameter candidate values to find the best-performing combination". The candidates
  are the Cartesian product of the value tuples, taken with the parameter names in sorted
  order; every candidate is given its mean test score, in that order; the best one is the
  first with the highest score.
\<close>

type_synonym param_grid = "(string \<times> pyval list) list"

definition ParameterGrid :: "param_grid \<Rightarrow> kwargs list" where
  "ParameterGrid grid =
     (let items = sort_key fst grid
      in map (zip (map fst items)) (product_lists (map snd items)))"

fun evaluate_candidates ::
  "(kwargs \<Rightarrow> 'g \<Rightarrow> ('e + real) \<times> 'g) \<Rightarrow> kwargs list \<Rightarrow> 'g \<Rightarrow> ('e + (kwargs \<times> real) list) \<times> 'g"
where
  "evaluate_candidates score_of [] g = (Inr [], g)"
| "evaluate_candidates score_of (c # cs) g =
     (case score_of c g of
        (Inl e, g1) \<Rightarrow> (Inl e, g1)
      | (Inr s, g1) \<Rightarrow>
          (case evaluate_candidates score_of cs g1 of
             (Inl e, g2) \<Rightarrow> (Inl e, g2)
           | (Inr rs, g2) \<Rightarrow> (Inr ((c, s) # rs), g2)))"

fun best_candidate :: "(kwargs \<times> real) list \<Rightarrow> (kwargs \<times> real) option" where
  "best_candidate [] = None"
| "best_candidate (r # rs) =
     (case best_candidate rs of
        None \<Rightarrow> Some r
      | Some b \<Rightarrow> if snd r < snd b then Some b else Some r)"

definition GridSearchCV_fit ::
  "(kwargs \<Rightarrow> 'g \<Rightarrow> ('e exn + real) \<times> 'g) \<Rightarrow> param_grid \<Rightarrow> 'g \<Rightarrow>
   ('e exn + (kwargs \<times> real) list \<times> kwargs) \<times> 'g"
where
  "GridSearchCV_fit score_of grid g =
     (case evaluate_candidates score_of (ParameterGrid grid) g of
        (Inl e, g1) \<Rightarrow> (Inl e, g1)
      | (Inr results, g1) \<Rightarrow>
          (case best_candidate results of
             None \<Rightarrow> (Inl ValueError, g1)
           | Some b \<Rightarrow> (Inr (results, fst b), g1)))"

subsection \<open>The cells\<close>

text \<open>Cell 2: \<open>iris = read_csv("../datasets/iris.csv")\<close>, then \<open>iris.head()\<close> as the
  value the cell shows.\<close>

definition cell2 ::
  "('e, 'g) library \<Rightarrow> ('g, frame, series, splitter, 'm) world_scheme \<Rightarrow>
   ('e exn + frame) \<times> ('g, frame, series, splitter, 'm) world_scheme"
where
  "cell2 lib w =
     (let w1 = emit (Ev_read_csv ''../datasets/iris.csv'') w
      in case lib_read_csv lib ''../datasets/iris.csv'' of
           Inl e \<Rightarrow> (Inl e, w1)
         | Inr iris \<Rightarrow> (Inr iris, emit (Ev_display (Out_frame (head iris))) w1))"

text \<open>Cell 3: \<open>x_iris, y_iris = iris.iloc[:, 1:-1], iris.iloc[:, -1]\<close>.\<close>

definition cell3 :: "frame \<Rightarrow> 'e exn + (frame \<times> series)" where
  "cell3 iris =
     (let x_iris = iloc_cols 1 (- 1) iris
      in case iloc_col (- 1) iris of
           Inl e \<Rightarrow> Inl e
         | Inr y_iris \<Rightarrow> Inr (x_iris, y_iris))"

text \<open>Cells 4 to 7: the calls of \<open>rate_accuracy\<close>, in the order of the notebook, each with
  its title, splitter class, \<open>shuffle\<close> argument (\<open>None\<close> where the call leaves it out) and
  \<open>n_splits\<close>.\<close>

record invocation =
  inv_title :: string
  inv_validator :: validator
  inv_shuffle :: "bool option"
  inv_n_splits :: int

definition cell4 :: "invocation list" where
  "cell4 =
     [\<lparr>inv_title = ''K-Fold accuracy'', inv_validator = KFold,
       inv_shuffle = Some True, inv_n_splits = 5\<rparr>]"

definition cell5 :: "invocation list" where
  "cell5 =
     [\<lparr>inv_title = ''K-Fold accuracy with 15 splits'', inv_validator = KFold,
       inv_shuffle = Some True, inv_n_splits = 15\<rparr>,
      \<lparr>inv_title = ''K-Fold accuracy with 10 splits'', inv_validator = KFold,
       inv_shuffle = Some True, inv_n_splits = 10\<rparr>,
      \<lparr>inv_title = ''K-Fold accuracy with 3 splits'', inv_validator = KFold,
       inv_shuffle = Some True, inv_n_splits = 3\<rparr>]"

definition cell6 :: "invocation list" where
  "cell6 =
     [\<lparr>inv_title = ''Stratified K-Fold accuracy with 15 splits'', inv_validator = StratifiedKFold,
       inv_shuffle = Some True, inv_n_splits = 15\<rparr>,
      \<lparr>inv_title = ''Stratified K-Fold accuracy with 10 splits'', inv_validator = StratifiedKFold,
       inv_shuffle = Some True, inv_n_splits = 10\<rparr>,
      \<lparr>inv_title = ''Stratified K-Fold accuracy with 3 splits'', inv_validator = StratifiedKFold,
       inv_shuffle = Some True, inv_n_splits = 3\<rparr>]"

definition cell7 :: "invocation list" where
  "cell7 =
     [\<lparr>inv_title = ''Stratified Shuffle Split accuracy with 15 splits'',
       inv_validator = StratifiedShuffleSplit, inv_shuffle = None, inv_n_splits = 15\<rparr>,
      \<lparr>inv_title = ''Stratified Shuffle Split accuracy with 10 splits'',
       inv_validator = StratifiedShuffleSplit, inv_shuffle = None, inv_n_splits = 10\<rparr>,
      \<lparr>inv_title = ''Stratified Shuffle Split accuracy with 3 splits'',
       inv_validator = StratifiedShuffleSplit, inv_shuffle = None, inv_n_splits = 3\<rparr>]"

definition invoke ::
  "('e, 'g) library \<Rightarrow> frame \<Rightarrow> series \<Rightarrow> invocation \<Rightarrow>
   ('g, frame, series, splitter, 'm) world_scheme \<Rightarrow>
   ('e exn + unit) \<times> ('g, frame, series, splitter, 'm) world_scheme"
where
  "invoke lib x y i w =
     rate_accuracy (lib_cross_val_score lib) x y (inv_title i)
       (construct lib (inv_validator i)) (inv_shuffle i) (inv_n_splits i) w"

fun run_invocations ::
  "('e, 'g) library \<Rightarrow> frame \<Rightarrow> series \<Rightarrow> invocation list \<Rightarrow>
   ('g, frame, series, splitter, 'm) world_scheme \<Rightarrow>
   ('e exn + unit) \<times> ('g, frame, series, splitter, 'm) world_scheme"
where
  "run_invocations lib x y [] w = (Inr (), w)"
| "run_invocations lib x y (i # rest) w =
     (case invoke lib x y i w of
        (Inl e, w1) \<Rightarrow> (Inl e, w1)
      | (Inr u, w1) \<Rightarrow> run_invocations lib x y rest w1)"

text \<open>Cell 8: the train/test split, the grid, the search fitted on the training part, and
  \<open>grid_search.best_params_\<close> as the value the cell shows.\<close>

definition parameters_grid :: param_grid where
  "parameters_grid =
     [(''n_estimators'', [PInt 10, PInt 100, PInt 1000]),
      (''criterion'', [PStr ''gini'', PStr ''entropy'', PStr ''log_loss'']),
      (''max_depth'', [PInt 10, PInt 100, PNone]),
      (''min_samples_split'', [PInt 2, PInt 4, PInt 6]),
      (''min_samples_leaf'', [PInt 1, PInt 2, PInt 3]),
      (''min_weight_fraction_leaf'', [PFloat (1 / 10), PFloat (1 / 100), PFloat 0])]"

definition cell8 ::
  "('e, 'g) library \<Rightarrow> frame \<Rightarrow> series \<Rightarrow> ('g, frame, series, splitter, 'm) world_scheme \<Rightarrow>
   ('e exn + (frame \<times> frame \<times> series \<times> series) \<times> kwargs) \<times>
   ('g, frame, series, splitter, 'm) world_scheme"
where
  "cell8 lib x_iris y_iris w =
     (let w1 = emit (Ev_train_test_split x_iris y_iris
                       [(''test_size'', PFloat (3 / 10)), (''random_state'', PInt 52)]) w
      in case train_test_split (lib_permutation lib) x_iris y_iris (3 / 10) (Some (PInt 52))
                (rng w1) of
           Inl e \<Rightarrow> (Inl e, w1)
         | Inr (x_train, x_test, y_train, y_test) \<Rightarrow>
             (let random_forest = RandomForestClassifier [];
                  w2 = emit (Ev_new_estimator random_forest) w1;
                  w3 = emit (Ev_GridSearchCV random_forest parameters_grid) w2;
                  w4 = emit (Ev_fit x_train y_train) w3;
                  (res, g) = GridSearchCV_fit (lib_mean_test_score lib random_forest x_train y_train)
                               parameters_grid (rng w4);
                  w5 = w4\<lparr>rng := g\<rparr>
              in case res of
                   Inl e \<Rightarrow> (Inl e, w5)
                 | Inr (results, best_params) \<Rightarrow>
                     (Inr ((x_train, x_test, y_train, y_test), best_params),
                      emit (Ev_display (Out_params best_params)) w5)))"

text \<open>Cell 9: \<open>grid_search.score(x_test, y_test)\<close> as the value the cell shows.\<close>

definition cell9 ::
  "('e, 'g) library \<Rightarrow> (frame \<times> frame \<times> series \<times> series) \<times> kwargs \<Rightarrow>
   ('g, frame, series, splitter, 'm) world_scheme \<Rightarrow>
   ('e exn + unit) \<times> ('g, frame, series, splitter, 'm) world_scheme"
where
  "cell9 lib fitted w =
     (case fitted of ((x_train, x_test, y_train, y_test), best_params) \<Rightarrow>
        (let w1 = emit (Ev_score x_test y_test) w;
             (res, g) = lib_score lib (RandomForestClassifier []) best_params x_train y_train
                          x_test y_test (rng w1);
             w2 = w1\<lparr>rng := g\<rparr>
         in case res of
              Inl e \<Rightarrow> (Inl e, w2)
            | Inr s \<Rightarrow> (Inr (), emit (Ev_display (Out_float s)) w2)))"

text \<open>The notebook run from top to bottom; the first exception stops it.\<close>

definition notebook_calls :: "invocation list" where
  "notebook_calls = cell4 @ cell5 @ cell6 @ cell7"

definition notebook ::
  "('e, 'g) library \<Rightarrow> ('g, frame, series, splitter, 'm) world_scheme \<Rightarrow>
   ('e exn + unit) \<times> ('g, frame, series, splitter, 'm) world_scheme"
where
  "notebook lib w =
     (case cell2 lib w of
        (Inl e, w2) \<Rightarrow> (Inl e, w2)
      | (Inr iris, w2) \<Rightarrow>
          (case cell3 iris of
             Inl e \<Rightarrow> (Inl e, w2)
           | Inr (x_iris, y_iris) \<Rightarrow>
               (case run_invocations lib x_iris y_iris notebook_calls w2 of
                  (Inl e, w7) \<Rightarrow> (Inl e, w7)
                | (Inr u, w7) \<Rightarrow>
                    (case cell8 lib x_iris y_iris w7 of
                       (Inl e, w8) \<Rightarrow> (Inl e, w8)
                     | (Inr fitted, w8) \<Rightarrow> cell9 lib fitted w8))))"

section \<open>Reading a trace\<close>

text \<open>
  What a run shows to its user: the first rows of a data frame are a preview of the
  dataset; a printed summary line and a displayed score are accuracy statistics; a
  displayed parameter dictionary is the best hyperparameters found. The files a run reads
  are the paths of its \<open>read_csv\<close> calls; the notebook has no other file access.
\<close>

datatype output_kind = Dataset_preview | Accuracy_statistic | Best_hyperparameters

fun output_kinds :: "('x, 'y, 'cv) event list \<Rightarrow> output_kind list" where
  "output_kinds [] = []"
| "output_kinds (Ev_display (Out_frame df) # es) = Dataset_preview # output_kinds es"
| "output_kinds (Ev_display (Out_params ps) # es) = Best_hyperparameters # output_kinds es"
| "output_kinds (Ev_display (Out_float s) # es) = Accuracy_statistic # output_kinds es"
| "output_kinds (Ev_print s # es) = Accuracy_statistic # output_kinds es"
| "output_kinds (_ # es) = output_kinds es"

fun files_read :: "('x, 'y, 'cv) event list \<Rightarrow> string list" where
  "files_read [] = []"
| "files_read (Ev_read_csv path # es) = path # files_read es"
| "files_read (_ # es) = files_read es"

text \<open>
  The outputs of a complete run, in order: the value of cell 2, the ten lines of cells 4 to
  7, the values of cells 8 and 9.
\<close>

definition expected_outputs :: "output_kind list" where
  "expected_outputs =
     Dataset_preview # replicate 10 Accuracy_statistic @ [Best_hyperparameters, Accuracy_statistic]"


fun splitter_kwargs :: "splitter \<Rightarrow> kwargs" where
  "splitter_kwargs (Splitter c kw) = kw"

section \<open>Concrete inputs\<close>

text \<open>
  Small stand-ins for the library, used to run the model on concrete inputs: a validator
  that returns its keyword arguments as the splitter, one that always raises, one that
  rejects a \<open>shuffle\<close> argument (as a shuffle-split class does), a scoring routine that
  returns the two scores 0.5 and 1.0, and one that raises.
\<close>

definition demo_validator :: "kwargs \<Rightarrow> string + kwargs" where
  "demo_validator kw = Inr kw"

definition failing_validator :: "kwargs \<Rightarrow> string + kwargs" where
  "failing_validator kw = Inl ''ValueError''"

definition unshuffled_validator :: "kwargs \<Rightarrow> string + kwargs" where
  "unshuffled_validator kw =
     (if ''shuffle'' \<in> fst ` set kw then Inl ''TypeError'' else Inr kw)"

definition demo_cross_val_score ::
  "estimator \<Rightarrow> unit \<Rightarrow> unit \<Rightarrow> kwargs \<Rightarrow> string \<Rightarrow> nat \<Rightarrow> (string + real list) \<times> nat"
where
  "demo_cross_val_score est x y cv scoring g = (Inr [1 / 2, 1], Suc g)"

definition failing_cross_val_score ::
  "estimator \<Rightarrow> unit \<Rightarrow> unit \<Rightarrow> kwargs \<Rightarrow> string \<Rightarrow> nat \<Rightarrow> (string + real list) \<times> nat"
where
  "failing_cross_val_score est x y cv scoring g = (Inl ''NotFittedError'', Suc g)"

definition demo_world :: "(nat, unit, unit, kwargs) world" where
  "demo_world = \<lparr>rng = 0, trace = []\<rparr>"

text \<open>
  Further stand-ins: a validator that, like \<open>KFold\<close>, requires at least two splits; a
  scoring routine whose scores depend on the state of the random generator, as those of an
  unseeded forest do; and a scoring routine for a world in which the state the library
  keeps is a generator state together with the contents of the objects at the references
  it is handed (here reference 0 for \<open>x\<close> and 1 for \<open>y\<close>), which it leaves as they are.
\<close>

definition two_fold_validator :: "kwargs \<Rightarrow> string + kwargs" where
  "two_fold_validator kw =
     (case map_of kw ''n_splits'' of
        Some (PInt n) \<Rightarrow> if 2 \<le> n then Inr kw else Inl ''ValueError''
      | _ \<Rightarrow> Inl ''TypeError'')"




text \<open>
  For the notebook: the five rows of the dataset that the notebook itself shows, a library
  whose splitter classes accept their arguments except that the shuffle-split class rejects
  \<open>shuffle\<close>, whose seeded generator depends on nothing and whose global generator
  depends on its state, and whose grid search scores the parameters the notebook reports
  highest; a library whose candidate scoring raises; and an empty data frame.
\<close>

definition notebook_best :: kwargs where
  "notebook_best =
     [(''criterion'', PStr ''gini''), (''max_depth'', PInt 100), (''min_samples_leaf'', PInt 2),
      (''min_samples_split'', PInt 2), (''min_weight_fraction_leaf'', PFloat 0),
      (''n_estimators'', PInt 10)]"

definition notebook_choice :: "string \<Rightarrow> pyval" where
  "notebook_choice k = (case map_of notebook_best k of Some v \<Rightarrow> v | None \<Rightarrow> PNone)"

definition demo_frame :: frame where
  "demo_frame =
     \<lparr>columns = [''Id'', ''SepalLengthCm'', ''SepalWidthCm'', ''PetalLengthCm'', ''PetalWidthCm'',
                 ''Species''],
      rows = [[PInt 1, PFloat (51 / 10), PFloat (35 / 10), PFloat (14 / 10), PFloat (2 / 10),
               PStr ''Iris-setosa''],
              [PInt 2, PFloat (49 / 10), PFloat 3, PFloat (14 / 10), PFloat (2 / 10),
               PStr ''Iris-setosa''],
              [PInt 3, PFloat (47 / 10), PFloat (32 / 10), PFloat (13 / 10), PFloat (2 / 10),
               PStr ''Iris-setosa''],
              [PInt 4, PFloat (46 / 10), PFloat (31 / 10), PFloat (15 / 10), PFloat (2 / 10),
               PStr ''Iris-setosa''],
              [PInt 5, PFloat 5, PFloat (36 / 10), PFloat (14 / 10), PFloat (2 / 10),
               PStr ''Iris-setosa'']]\<rparr>"

definition demo_library :: "(string, nat) library" where
  "demo_library =
     \<lparr>lib_read_csv = (\<lambda>path. if path = ''../datasets/iris.csv'' then Inr demo_frame
                              else Inl (Raised ''FileNotFoundError'')),
      lib_init_error = (\<lambda>c kw. if c = StratifiedShuffleSplit \<and> ''shuffle'' \<in> fst ` set kw
                                then Some (Raised ''TypeError'') else None),
      lib_cross_val_score = (\<lambda>est x y cv scoring g. (Inr [1 / 2, 1], Suc g)),
      lib_permutation = (\<lambda>src n. case src of Seeded s \<Rightarrow> rev [0..<n] | Global g \<Rightarrow> rotate g [0..<n]),
      lib_folds = (\<lambda>cv src y. case src of Seeded s \<Rightarrow> [([0], [1])] | Global g \<Rightarrow> [([g], [Suc g])]),
      lib_mean_test_score = (\<lambda>est x y c g. (Inr (if c = notebook_best then 1 else 0), g)),
      lib_score = (\<lambda>est c x_train y_train x_test y_test g. (Inr (41 / 45), Suc g))\<rparr>"

definition failing_library :: "(string, nat) library" where
  "failing_library =
     demo_library\<lparr>lib_mean_test_score := (\<lambda>est x y c g. (Inl (Raised ''ValueError''), g))\<rparr>"

definition empty_frame :: frame where
  "empty_frame = \<lparr>columns = [], rows = []\<rparr>"

definition demo_kernel :: "(nat, frame, series, splitter) world" where
  "demo_kernel = \<lparr>rng = 0, trace = []\<rparr>"

definition demo_x :: frame where
  "demo_x = iloc_cols 1 (- 1) demo_frame"

definition demo_y :: series where
  "demo_y = [PStr ''Iris-setosa'', PStr ''Iris-setosa'', PStr ''Iris-setosa'', PStr ''Iris-setosa'',
             PStr ''Iris-setosa'']"

definition demo_results :: "(kwargs \<times> real) list" where
  "demo_results = map (\<lambda>c. (c, if c = notebook_best then 1 else 0)) (ParameterGrid parameters_grid)"

section \<open>Basic facts\<close>

lemma emit_simps [simp]:
  "trace (emit ev w) = trace w @ [ev]"
  "rng (emit ev w) = rng w"
  "world.more (emit ev w) = world.more w"
  by (simp_all add: emit_def)

lemma printed_append [simp]: "printed (xs @ ys) = printed xs @ printed ys"
  by (induction xs rule: printed.induct) simp_all

lemma validator_calls_append [simp]:
  "validator_calls (xs @ ys) = validator_calls xs @ validator_calls ys"
  by (induction xs rule: validator_calls.induct) simp_all

lemma scoring_calls_append [simp]:
  "scoring_calls (xs @ ys) = scoring_calls xs @ scoring_calls ys"
  by (induction xs rule: scoring_calls.induct) simp_all

lemmas ra_defs = call_events_def rate_accuracy_def Let_def new_events_def splitters_scored_def

lemma mean_squares_nonneg: "0 \<le> mean (map (\<lambda>v. (v - m)\<^sup>2) xs)"
  unfolding mean_def
  by (intro divide_nonneg_nonneg sum_list_nonneg) auto

lemma std_nonneg: "0 \<le> std xs"
  by (simp add: std_def mean_squares_nonneg)

lemma std_squared: "(std xs)\<^sup>2 = mean (map (\<lambda>v. (v - mean xs)\<^sup>2) xs)"
  by (simp add: std_def mean_squares_nonneg)

lemma std_example: "std [1 / 2, 1] = 1 / 4"
  by (simp add: std_def mean_def power2_eq_square real_sqrt_divide)

lemma mean_example: "mean [1 / 2, 1] = 3 / 4"
  by (simp add: mean_def)

lemma fmt_examples:
  "fmt_02f (3 / 4) = ''0.75''" "fmt_02f (1 / 2) = ''0.50''" "fmt_02f (1 / 4) = ''0.25''"
  by (simp_all add: fmt_02f_def round_half_even_def show_nat.simps digit_char_def Let_def)




subsection \<open>Traces of the cells\<close>

lemma output_kinds_append [simp]: "output_kinds (xs @ ys) = output_kinds xs @ output_kinds ys"
  by (induction xs rule: output_kinds.induct) simp_all

lemma files_read_append [simp]: "files_read (xs @ ys) = files_read xs @ files_read ys"
  by (induction xs rule: files_read.induct) simp_all

lemma splitters_scored_append [simp]:
  "splitters_scored (xs @ ys) = splitters_scored xs @ splitters_scored ys"
  by (simp add: splitters_scored_def)

lemma new_events_trace: "trace w' = trace w @ es \<Longrightarrow> new_events w w' = es"
  by (simp add: new_events_def)

lemma rate_accuracy_trace:
  "trace (snd (rate_accuracy cvs x y title validator shuffle n_splits w))
     = trace w @ call_events cvs x y title validator shuffle n_splits w"
  by (auto simp: ra_defs split: sum.splits prod.splits)

lemma call_events_io:
  "files_read (call_events cvs x y title validator shuffle n_splits w) = []"
  "output_kinds (call_events cvs x y title validator shuffle n_splits w)
     = (case fst (rate_accuracy cvs x y title validator shuffle n_splits w) of
          Inl e \<Rightarrow> [] | Inr u \<Rightarrow> [Accuracy_statistic])"
  by (auto simp: ra_defs split: sum.splits prod.splits)

lemma call_events_scored:
  assumes "fst (rate_accuracy cvs x y title (construct lib c) shuffle n_splits w) = Inr u"
  shows "splitters_scored (call_events cvs x y title (construct lib c) shuffle n_splits w)
     = [Splitter c (if truthy shuffle
                    then [(''n_splits'', PInt n_splits), (''shuffle'', PBool True),
                          (''random_state'', PInt 52)]
                    else [(''n_splits'', PInt n_splits)])]"
  using assms
  by (auto simp: ra_defs construct_def split: sum.splits prod.splits option.splits if_splits)

lemma call_events_scored_subset:
  "set (splitters_scored (call_events cvs x y title (construct lib c) shuffle n_splits w))
     \<subseteq> {Splitter c (if truthy shuffle
                    then [(''n_splits'', PInt n_splits), (''shuffle'', PBool True),
                          (''random_state'', PInt 52)]
                    else [(''n_splits'', PInt n_splits)])}"
  by (auto simp: ra_defs construct_def split: sum.splits prod.splits option.splits if_splits)

lemma invoke_scored_subset:
  "set (splitters_scored (new_events w (snd (invoke lib x y i w))))
     \<subseteq> {Splitter (inv_validator i)
           (if truthy (inv_shuffle i)
            then [(''n_splits'', PInt (inv_n_splits i)), (''shuffle'', PBool True),
                  (''random_state'', PInt 52)]
            else [(''n_splits'', PInt (inv_n_splits i))])}"
  using call_events_scored_subset
    [of "lib_cross_val_score lib" x y "inv_title i" lib "inv_validator i" "inv_shuffle i"
       "inv_n_splits i" w]
  by (simp add: invoke_def call_events_def)


lemma run_invocations_trace:
  "\<exists>es k. trace (snd (run_invocations lib x y invs w)) = trace w @ es
     \<and> files_read es = []
     \<and> output_kinds es = replicate k Accuracy_statistic
     \<and> (case fst (run_invocations lib x y invs w) of
          Inl e \<Rightarrow> k < length invs | Inr u \<Rightarrow> k = length invs)"
proof (induction invs arbitrary: w)
  case Nil
  then show ?case by simp
next
  case (Cons i rest)
  let ?ev = "call_events (lib_cross_val_score lib) x y (inv_title i)
               (construct lib (inv_validator i)) (inv_shuffle i) (inv_n_splits i) w"
  obtain r w1 where inv: "invoke lib x y i w = (r, w1)"
    by (cases "invoke lib x y i w")
  then have tr: "trace w1 = trace w @ ?ev"
    using rate_accuracy_trace
      [of "lib_cross_val_score lib" x y "inv_title i" "construct lib (inv_validator i)"
         "inv_shuffle i" "inv_n_splits i" w]
    by (simp add: invoke_def)
  have io: "files_read ?ev = []"
    "output_kinds ?ev = (case r of Inl e \<Rightarrow> [] | Inr u \<Rightarrow> [Accuracy_statistic])"
    using inv call_events_io
      [of "lib_cross_val_score lib" x y "inv_title i" "construct lib (inv_validator i)"
         "inv_shuffle i" "inv_n_splits i" w]
    by (simp_all add: invoke_def)
  show ?case
  proof (cases r)
    case (Inl e)
    with inv tr io show ?thesis
      by (intro exI [of _ ?ev] exI [of _ 0]) simp
  next
    case (Inr u)
    from Cons.IH [of w1] obtain es k where
      rest: "trace (snd (run_invocations lib x y rest w1)) = trace w1 @ es"
        "files_read es = []" "output_kinds es = replicate k Accuracy_statistic"
        "(case fst (run_invocations lib x y rest w1) of
            Inl e \<Rightarrow> k < length rest | Inr u \<Rightarrow> k = length rest)"
      by blast
    with Inr inv tr io show ?thesis
      by (intro exI [of _ "?ev @ es"] exI [of _ "Suc k"]) (auto split: sum.splits)
  qed
qed


lemma cell2_trace:
  "trace (snd (cell2 lib w)) = trace w @
     (case lib_read_csv lib ''../datasets/iris.csv'' of
        Inl e \<Rightarrow> [Ev_read_csv ''../datasets/iris.csv'']
      | Inr iris \<Rightarrow> [Ev_read_csv ''../datasets/iris.csv'', Ev_display (Out_frame (head iris))])"
  "fst (cell2 lib w) = lib_read_csv lib ''../datasets/iris.csv''"
  by (auto simp: cell2_def Let_def split: sum.splits)

lemma cell8_trace:
  "\<exists>es. trace (snd (cell8 lib x y w)) = trace w @ es
     \<and> files_read es = []
     \<and> output_kinds es = (case fst (cell8 lib x y w) of
                             Inl e \<Rightarrow> [] | Inr fitted \<Rightarrow> [Best_hyperparameters])"
  by (auto simp: cell8_def Let_def split: sum.splits prod.splits)

lemma cell9_trace:
  "\<exists>es. trace (snd (cell9 lib fitted w)) = trace w @ es
     \<and> files_read es = []
     \<and> output_kinds es = (case fst (cell9 lib fitted w) of
                             Inl e \<Rightarrow> [] | Inr u \<Rightarrow> [Accuracy_statistic])"
  by (auto simp: cell9_def Let_def split: sum.splits prod.splits)

lemma cell8_partition:
  "fst (cell8 lib x y w) = Inr (parts, best) \<Longrightarrow>
     train_test_split (lib_permutation lib) x y (3 / 10) (Some (PInt 52)) g = Inr parts"
  by (auto simp: cell8_def Let_def train_test_split_def split: sum.splits prod.splits if_splits)

lemma cell8_run:
  fixes lib :: "('e, 'g) library"
  assumes "train_test_split (lib_permutation lib) x y (3 / 10) (Some (PInt 52)) (rng w)
             = (Inr (x_train, x_test, y_train, y_test)
                :: 'e exn + frame \<times> frame \<times> series \<times> series)"
    and "GridSearchCV_fit (lib_mean_test_score lib (RandomForestClassifier []) x_train y_train)
             parameters_grid (rng w) = (Inr (results, best), g')"
  shows "fst (cell8 lib x y w) = Inr ((x_train, x_test, y_train, y_test), best)"
    and "new_events w (snd (cell8 lib x y w))
           = [Ev_train_test_split x y [(''test_size'', PFloat (3 / 10)), (''random_state'', PInt 52)],
              Ev_new_estimator (RandomForestClassifier []),
              Ev_GridSearchCV (RandomForestClassifier []) parameters_grid,
              Ev_fit x_train y_train,
              Ev_display (Out_params best)]"
    and "rng (snd (cell8 lib x y w)) = g'"
  using assms by (simp_all add: cell8_def Let_def new_events_def)

lemma notebook_io:
  fixes lib :: "('e, 'g) library"
  shows
  "files_read (new_events w (snd (notebook lib w))) = [''../datasets/iris.csv'']
   \<and> output_kinds (new_events w (snd (notebook lib w)))
       = take (length (output_kinds (new_events w (snd (notebook lib w))))) expected_outputs
   \<and> (case fst (notebook lib w) of
         Inl e \<Rightarrow> length (output_kinds (new_events w (snd (notebook lib w)))) < length expected_outputs
       | Inr u \<Rightarrow> output_kinds (new_events w (snd (notebook lib w))) = expected_outputs)"
proof (cases "lib_read_csv lib ''../datasets/iris.csv''")
  case (Inl e)
  then show ?thesis
    using cell2_trace [of lib w]
    by (cases "cell2 lib w") (simp add: notebook_def new_events_trace expected_outputs_def)
next
  case (Inr iris)
  obtain w2 where c2: "cell2 lib w = (Inr iris, w2)"
    and t2: "trace w2 = trace w @ [Ev_read_csv ''../datasets/iris.csv'', Ev_display (Out_frame (head iris))]"
    using Inr cell2_trace [of lib w] by (cases "cell2 lib w") simp
  show ?thesis
  proof (cases "cell3 iris :: 'e exn + frame \<times> series")
    case (Inl e)
    with c2 t2 show ?thesis
      by (simp add: notebook_def new_events_trace expected_outputs_def)
  next
    case c3: (Inr xy)
    obtain x_iris y_iris where xy: "xy = (x_iris, y_iris)"
      by (cases xy)
    obtain r7 w7 where c7: "run_invocations lib x_iris y_iris notebook_calls w2 = (r7, w7)"
      by (cases "run_invocations lib x_iris y_iris notebook_calls w2")
    obtain es7 k where t7: "trace w7 = trace w2 @ es7" "files_read es7 = []"
      "output_kinds es7 = replicate k Accuracy_statistic"
      "(case r7 of Inl e \<Rightarrow> k < length notebook_calls | Inr u \<Rightarrow> k = length notebook_calls)"
      using run_invocations_trace [of lib x_iris y_iris notebook_calls w2] c7 by auto
    have len: "length notebook_calls = 10"
      by (simp add: notebook_calls_def cell4_def cell5_def cell6_def cell7_def)
    show ?thesis
    proof (cases r7)
      case (Inl e)
      with t7 len have "k < 10" by simp
      with Inl c2 c3 xy c7 t2 t7 show ?thesis
        by (simp add: notebook_def new_events_trace expected_outputs_def min_def)
    next
      case r7: (Inr u7)
      with t7 len have k: "k = 10" by simp
      obtain r8 w8 where c8: "cell8 lib x_iris y_iris w7 = (r8, w8)"
        by (cases "cell8 lib x_iris y_iris w7")
      obtain es8 where t8: "trace w8 = trace w7 @ es8" "files_read es8 = []"
        "output_kinds es8 = (case r8 of Inl e \<Rightarrow> [] | Inr fitted \<Rightarrow> [Best_hyperparameters])"
        using cell8_trace [of lib x_iris y_iris w7] c8 by auto
      show ?thesis
      proof (cases r8)
        case (Inl e)
        with r7 k c2 c3 xy c7 c8 t2 t7 t8 show ?thesis
          by (simp add: notebook_def new_events_trace expected_outputs_def)
      next
        case r8: (Inr fitted)
        obtain r9 w9 where c9: "cell9 lib fitted w8 = (r9, w9)"
          by (cases "cell9 lib fitted w8")
        obtain es9 where t9: "trace w9 = trace w8 @ es9" "files_read es9 = []"
          "output_kinds es9 = (case r9 of Inl e \<Rightarrow> [] | Inr u \<Rightarrow> [Accuracy_statistic])"
          using cell9_trace [of lib fitted w8] c9 by auto
        from r7 r8 k c2 c3 xy c7 c8 c9 t2 t7 t8 t9 show ?thesis
          by (cases r9) (simp_all add: notebook_def new_events_trace expected_outputs_def)
      qed
    qed
  qed
qed

subsection \<open>The data and its split\<close>

lemma cell3_rows:
  assumes "cell3 iris = Inr (x, y)"
  shows "length (rows x) = length (rows iris)" "length y = length (rows iris)"
    "\<forall>i < length (rows iris). rows x ! i = py_slice 1 (- 1) (rows iris ! i)
        \<and> y ! i = rows iris ! i ! (length (columns iris) - 1)"
proof -
  have k: "nat (int (length (columns iris)) - 1) = length (columns iris) - 1"
    by simp
  from assms show "length (rows x) = length (rows iris)" "length y = length (rows iris)"
    "\<forall>i < length (rows iris). rows x ! i = py_slice 1 (- 1) (rows iris ! i)
        \<and> y ! i = rows iris ! i ! (length (columns iris) - 1)"
    by (auto simp: cell3_def iloc_cols_def iloc_col_def Let_def k simp del: One_nat_def
        split: sum.splits if_splits)
qed

lemma train_test_split_Inr:
  assumes s: "train_test_split permutation x y test_size random_state g
            = Inr (x_train, x_test, y_train, y_test)"
    and p: "\<forall>src n. distinct (permutation src n) \<and> set (permutation src n) = {..<n}"
  shows "\<exists>train test. distinct (test @ train) \<and> set (test @ train) = {..<length (rows x)}
           \<and> length y = length (rows x)
           \<and> rows x_train = map (\<lambda>i. rows x ! i) train \<and> y_train = map (\<lambda>i. y ! i) train
           \<and> rows x_test = map (\<lambda>i. rows x ! i) test \<and> y_test = map (\<lambda>i. y ! i) test"
proof -
  let ?n = "length (rows x)"
  let ?n_test = "nat \<lceil>test_size * real ?n\<rceil>"
  let ?p = "permutation (check_random_state random_state g) ?n"
  let ?test = "take ?n_test ?p" and ?train = "take (?n - ?n_test) (drop ?n_test ?p)"
  from s have len: "length y = ?n" and pos: "?n - ?n_test \<noteq> 0"
    and parts: "x_train = take_rows x ?train" "x_test = take_rows x ?test"
      "y_train = map (\<lambda>i. y ! i) ?train" "y_test = map (\<lambda>i. y ! i) ?test"
    by (auto simp: train_test_split_def Let_def split: if_splits)
  define q where "q = ?p"
  from p have dp: "distinct q" and sp: "set q = {..<?n}"
    unfolding q_def by blast+
  have "card (set q) = length q"
    using dp by (rule distinct_card)
  with sp have lq: "length q = ?n"
    by simp
  then have "take (?n - ?n_test) (drop ?n_test q) = drop ?n_test q"
    by simp
  then have app: "take ?n_test q @ take (?n - ?n_test) (drop ?n_test q) = q"
    by simp
  have d: "distinct (take ?n_test q @ take (?n - ?n_test) (drop ?n_test q))"
    unfolding app by (rule dp)
  have st: "set (take ?n_test q @ take (?n - ?n_test) (drop ?n_test q)) = {..<?n}"
    unfolding app by (rule sp)
  have rows: "rows x_train = map (\<lambda>i. rows x ! i) (take (?n - ?n_test) (drop ?n_test q))"
    "rows x_test = map (\<lambda>i. rows x ! i) (take ?n_test q)"
    using parts(1,2) unfolding q_def by (simp_all add: take_rows_def)
  have labels: "y_train = map (\<lambda>i. y ! i) (take (?n - ?n_test) (drop ?n_test q))"
    "y_test = map (\<lambda>i. y ! i) (take ?n_test q)"
    using parts(3,4) unfolding q_def by simp_all
  show ?thesis
  proof (intro exI conjI)
    show "distinct (take ?n_test q @ take (?n - ?n_test) (drop ?n_test q))" by (rule d)
    show "set (take ?n_test q @ take (?n - ?n_test) (drop ?n_test q)) = {..<?n}" by (rule st)
    show "length y = ?n" by (rule len)
    show "rows x_train = map (\<lambda>i. rows x ! i) (take (?n - ?n_test) (drop ?n_test q))"
      by (rule rows(1))
    show "y_train = map (\<lambda>i. y ! i) (take (?n - ?n_test) (drop ?n_test q))"
      by (rule labels(1))
    show "rows x_test = map (\<lambda>i. rows x ! i) (take ?n_test q)" by (rule rows(2))
    show "y_test = map (\<lambda>i. y ! i) (take ?n_test q)" by (rule labels(2))
  qed
qed

subsection \<open>The grid and the search\<close>

lemma sorted_grid:
  "sort_key fst parameters_grid =
     [(''criterion'', [PStr ''gini'', PStr ''entropy'', PStr ''log_loss'']),
      (''max_depth'', [PInt 10, PInt 100, PNone]),
      (''min_samples_leaf'', [PInt 1, PInt 2, PInt 3]),
      (''min_samples_split'', [PInt 2, PInt 4, PInt 6]),
      (''min_weight_fraction_leaf'', [PFloat (1 / 10), PFloat (1 / 100), PFloat 0]),
      (''n_estimators'', [PInt 10, PInt 100, PInt 1000])]"
  by (simp add: parameters_grid_def less_eq_char_def less_char_def)

lemma length_ParameterGrid:
  "length (ParameterGrid grid) = foldr (*) (map (\<lambda>kv. length (snd kv)) (sort_key fst grid)) 1"
  by (simp add: ParameterGrid_def Let_def length_product_lists comp_def)

lemma in_ParameterGrid:
  "c \<in> set (ParameterGrid grid) \<longleftrightarrow>
     map fst c = map fst (sort_key fst grid) \<and>
     list_all2 (\<lambda>v ys. v \<in> set ys) (map snd c) (map snd (sort_key fst grid))"
proof
  assume "c \<in> set (ParameterGrid grid)"
  then obtain vs where c: "c = zip (map fst (sort_key fst grid)) vs"
    and vs: "list_all2 (\<lambda>v ys. v \<in> set ys) vs (map snd (sort_key fst grid))"
    by (auto simp: ParameterGrid_def Let_def product_lists_set)
  from vs have "length vs = length (sort_key fst grid)"
    by (auto dest: list_all2_lengthD)
  with c vs show "map fst c = map fst (sort_key fst grid) \<and>
     list_all2 (\<lambda>v ys. v \<in> set ys) (map snd c) (map snd (sort_key fst grid))"
    by simp
next
  assume a: "map fst c = map fst (sort_key fst grid) \<and>
     list_all2 (\<lambda>v ys. v \<in> set ys) (map snd c) (map snd (sort_key fst grid))"
  have "c = zip (map fst c) (map snd c)"
    by (simp add: zip_map_fst_snd)
  with a have "c = zip (map fst (sort_key fst grid)) (map snd c)"
    by simp
  with a show "c \<in> set (ParameterGrid grid)"
    by (auto simp: ParameterGrid_def Let_def product_lists_set)
qed

lemma choice_in_ParameterGrid:
  assumes "\<forall>kv \<in> set grid. choice (fst kv) \<in> set (snd kv)"
  shows "map (\<lambda>kv. (fst kv, choice (fst kv))) (sort_key fst grid) \<in> set (ParameterGrid grid)"
proof -
  have "list_all2 (\<lambda>v ys. v \<in> set ys)
          (map (\<lambda>kv. choice (fst kv)) (sort_key fst grid)) (map snd (sort_key fst grid))"
    using assms by (simp add: list_all2_map1 list_all2_map2 list_all2_same)
  then show ?thesis
    by (simp add: in_ParameterGrid comp_def)
qed

lemma distinct_ParameterGrid:
  assumes "\<forall>kv \<in> set grid. distinct (snd kv)"
  shows "distinct (ParameterGrid grid)"
proof -
  let ?ks = "map fst (sort_key fst grid)" and ?vss = "map snd (sort_key fst grid)"
  have d: "distinct (product_lists ?vss)"
    using assms by (intro distinct_product_lists) auto
  have "inj_on (zip ?ks) (set (product_lists ?vss))"
  proof (rule inj_onI)
    fix a b
    assume "a \<in> set (product_lists ?vss)" "b \<in> set (product_lists ?vss)"
      and eq: "zip ?ks a = zip ?ks b"
    then have la: "length a = length ?ks" and lb: "length b = length ?ks"
      by (auto dest: in_set_product_lists_length)
    from eq have "map snd (zip ?ks a) = map snd (zip ?ks b)"
      by simp
    with la lb show "a = b"
      by simp
  qed
  with d show ?thesis
    by (simp add: ParameterGrid_def Let_def distinct_map)
qed

lemma evaluate_candidates_Inr:
  "evaluate_candidates f cs g = (Inr rs, g') \<Longrightarrow>
     map fst rs = cs \<and> (\<forall>r \<in> set rs. \<exists>g1 g2. f (fst r) g1 = (Inr (snd r), g2))"
proof (induction cs arbitrary: g rs)
  case Nil
  then show ?case by simp
next
  case (Cons c cs)
  then show ?case
    by (fastforce split: prod.splits sum.splits)
qed

lemma evaluate_candidates_pure:
  "evaluate_candidates (\<lambda>c g. (Inr (f c), g)) cs g = (Inr (map (\<lambda>c. (c, f c)) cs), g)"
  by (induction cs) simp_all

lemma evaluate_candidates_fail:
  "cs \<noteq> [] \<Longrightarrow> evaluate_candidates (\<lambda>c g. (Inl e, g)) cs g = (Inl e, g)"
  by (cases cs) simp_all

lemma best_candidate_None: "best_candidate rs = None \<longleftrightarrow> rs = []"
  by (induction rs) (auto split: option.splits)

lemma best_candidate_Some:
  "best_candidate rs = Some b \<Longrightarrow> b \<in> set rs \<and> (\<forall>r \<in> set rs. snd r \<le> snd b)"
proof (induction rs arbitrary: b)
  case Nil
  then show ?case by simp
next
  case (Cons r rs)
  show ?case
  proof (cases "best_candidate rs")
    case None
    with Cons.prems show ?thesis
      by (simp add: best_candidate_None)
  next
    case (Some b')
    with Cons.IH [of b'] Cons.prems show ?thesis
      by (auto split: if_splits)
  qed
qed

lemma best_candidate_indicator:
  "best_candidate (map (\<lambda>c. (c, if c = c0 then 1 else 0)) cs) =
     (if c0 \<in> set cs then Some (c0, 1) else (case cs of [] \<Rightarrow> None | c # _ \<Rightarrow> Some (c, 0)))"
  by (induction cs) (auto split: list.splits)

subsection \<open>The concrete run\<close>

lemma cell3_demo: "cell3 demo_frame = (Inr (demo_x, demo_y) :: string exn + _)"
  by (simp add: cell3_def iloc_col_def demo_x_def demo_y_def demo_frame_def Let_def)

lemma demo_x_rows:
  "rows demo_x = 
     [[PFloat (51 / 10), PFloat (35 / 10), PFloat (14 / 10), PFloat (2 / 10)],
      [PFloat (49 / 10), PFloat 3, PFloat (14 / 10), PFloat (2 / 10)],
      [PFloat (47 / 10), PFloat (32 / 10), PFloat (13 / 10), PFloat (2 / 10)],
      [PFloat (46 / 10), PFloat (31 / 10), PFloat (15 / 10), PFloat (2 / 10)],
      [PFloat 5, PFloat (36 / 10), PFloat (14 / 10), PFloat (2 / 10)]]"
  by (simp add: demo_x_def iloc_cols_def py_slice_def demo_frame_def Let_def)

lemma demo_permutation:
  "\<forall>src n. distinct (lib_permutation demo_library src n)
     \<and> set (lib_permutation demo_library src n) = {..<n}"
  by (auto simp: demo_library_def split: rng_source.splits)

lemma demo_split:
  "train_test_split (lib_permutation demo_library) demo_x demo_y (3 / 10) (Some (PInt 52)) g
     = (Inr (take_rows demo_x [2, 1, 0], take_rows demo_x [4, 3],
             [PStr ''Iris-setosa'', PStr ''Iris-setosa'', PStr ''Iris-setosa''],
             [PStr ''Iris-setosa'', PStr ''Iris-setosa''])
        :: string exn + _)"
  by (simp add: train_test_split_def demo_x_rows demo_y_def Let_def demo_library_def)
    (simp add: numeral_eq_Suc)

lemma empty_split:
  "train_test_split p empty_frame [] (3 / 10) (Some (PInt 52)) g = Inl ValueError"
  by (simp add: train_test_split_def empty_frame_def)

lemma failing_split:
  "train_test_split (lib_permutation failing_library) demo_x demo_y (3 / 10) (Some (PInt 52)) g
     = (Inr (take_rows demo_x [2, 1, 0], take_rows demo_x [4, 3],
             [PStr ''Iris-setosa'', PStr ''Iris-setosa'', PStr ''Iris-setosa''],
             [PStr ''Iris-setosa'', PStr ''Iris-setosa''])
        :: string exn + _)"
  using demo_split [of g] by (simp add: failing_library_def)

lemma notebook_best_candidate: "notebook_best \<in> set (ParameterGrid parameters_grid)"
  by (simp add: in_ParameterGrid sorted_grid notebook_best_def)

lemma grid_nonempty: "ParameterGrid parameters_grid \<noteq> []"
  using notebook_best_candidate by auto

lemma evaluate_candidates_total:
  assumes "\<forall>c g1. \<exists>s g2. score_of c g1 = (Inr s, g2)"
  shows "\<exists>rs g'. evaluate_candidates score_of cs g = (Inr rs, g')"
proof (induction cs arbitrary: g)
  case Nil
  then show ?case by simp
next
  case (Cons c cs)
  from assms obtain s g1 where s: "score_of c g = (Inr s, g1)"
    by blast
  from Cons.IH [of g1] obtain rs g2 where "evaluate_candidates score_of cs g1 = (Inr rs, g2)"
    by blast
  with s show ?case by simp
qed

lemma GridSearchCV_fit_total:
  assumes "\<forall>c g1. \<exists>s g2. score_of c g1 = (Inr s, g2)"
  shows "\<exists>results best g'. GridSearchCV_fit score_of parameters_grid g = (Inr (results, best), g')"
proof -
  from evaluate_candidates_total [OF assms] obtain rs g' where
    ev: "evaluate_candidates score_of (ParameterGrid parameters_grid) g = (Inr rs, g')"
    by blast
  from evaluate_candidates_Inr [OF ev] grid_nonempty have "rs \<noteq> []"
    by auto
  then obtain b where "best_candidate rs = Some b"
    using best_candidate_None [of rs] by (cases "best_candidate rs") auto
  with ev show ?thesis
    by (simp add: GridSearchCV_fit_def)
qed

lemma demo_fit:
  "GridSearchCV_fit (lib_mean_test_score demo_library est x y) parameters_grid g
     = (Inr (demo_results, notebook_best), g)"
  by (simp add: GridSearchCV_fit_def demo_library_def evaluate_candidates_pure
      best_candidate_indicator notebook_best_candidate demo_results_def)

lemma failing_fit:
  "GridSearchCV_fit (lib_mean_test_score failing_library est x y) parameters_grid g
     = (Inl (Raised ''ValueError''), g)"
  by (simp add: GridSearchCV_fit_def failing_library_def evaluate_candidates_fail grid_nonempty)

lemma demo_cell8:
  "fst (cell8 demo_library demo_x demo_y w)
     = Inr ((take_rows demo_x [2, 1, 0], take_rows demo_x [4, 3],
             [PStr ''Iris-setosa'', PStr ''Iris-setosa'', PStr ''Iris-setosa''],
             [PStr ''Iris-setosa'', PStr ''Iris-setosa'']), notebook_best)"
  "last (trace (snd (cell8 demo_library demo_x demo_y w))) = Ev_display (Out_params notebook_best)"
  by (simp_all add: cell8_def Let_def demo_split demo_fit)

lemma demo_invoke:
  "fst (invoke demo_library x y i w) = 
    (if inv_validator i = StratifiedShuffleSplit \<and> truthy (inv_shuffle i) then Inl (Raised ''TypeError'') else Inr ())"
  by (auto simp: invoke_def rate_accuracy_def Let_def construct_def demo_library_def split: sum.splits prod.splits option.splits)

lemma demo_scored:
  "\<not> (inv_validator i = StratifiedShuffleSplit \<and> truthy (inv_shuffle i)) \<Longrightarrow>
   splitters_scored (new_events w (snd (invoke demo_library x y i w)))
     = [Splitter (inv_validator i)
          (if truthy (inv_shuffle i)
           then [(''n_splits'', PInt (inv_n_splits i)), (''shuffle'', PBool True),
                 (''random_state'', PInt 52)]
           else [(''n_splits'', PInt (inv_n_splits i))])]"
  using demo_invoke [of x y i w]
    call_events_scored
      [of "lib_cross_val_score demo_library" x y "inv_title i" demo_library "inv_validator i"
         "inv_shuffle i" "inv_n_splits i" w "()"]
  by (simp add: invoke_def call_events_def)

lemma demo_run_invocations:
  "list_all (\<lambda>i. \<not> (inv_validator i = StratifiedShuffleSplit \<and> truthy (inv_shuffle i))) invs \<Longrightarrow>
   fst (run_invocations demo_library x y invs w) = Inr ()"
proof (induction invs arbitrary: w)
  case Nil
  then show ?case by simp
next
  case (Cons i rest)
  then show ?case
    using demo_invoke [of x y i w]
    by (cases "invoke demo_library x y i w") (auto split: sum.splits)
qed

lemma demo_calls_ok: "fst (run_invocations demo_library x y notebook_calls w) = Inr ()"
  by (rule demo_run_invocations)
    (simp add: notebook_calls_def cell4_def cell5_def cell6_def cell7_def)

lemma demo_cell9: "fst (cell9 demo_library fitted w) = Inr ()"
  by (auto simp: cell9_def demo_library_def Let_def split: prod.splits)

lemma demo_notebook: "fst (notebook demo_library demo_kernel) = Inr ()"
proof -
  have c2: "fst (cell2 demo_library demo_kernel) = Inr demo_frame"
    by (simp add: cell2_trace demo_library_def)
  obtain w2 where w2: "cell2 demo_library demo_kernel = (Inr demo_frame, w2)"
    using c2 by (cases "cell2 demo_library demo_kernel") simp
  obtain w7 where w7: "run_invocations demo_library demo_x demo_y notebook_calls w2 = (Inr (), w7)"
    using demo_calls_ok [of demo_x demo_y w2]
    by (cases "run_invocations demo_library demo_x demo_y notebook_calls w2") simp
  obtain fitted w8 where w8: "cell8 demo_library demo_x demo_y w7 = (Inr fitted, w8)"
    using demo_cell8(1) [of w7] by (cases "cell8 demo_library demo_x demo_y w7") simp
  show ?thesis
    by (simp add: notebook_def w2 cell3_demo w7 w8 demo_cell9)
qed

section \<open>The claims about \<open>rate_accuracy\<close>\<close>



text \<open>
  C1, as amended. The line a call prints reports the mean of the cross-validation scores
  and, after \<open>+/-\<close>, twice their standard deviation (\<open>kfold_score.std() * 2\<close>), not the
  standard deviation itself. A call prints nothing at all or exactly this line; it prints
  the line whenever the validator and \<open>cross_val_score\<close> return. The standard deviation is
  the non-negative root of the mean squared distance from the mean.
\<close>

theorem rate_accuracy_prints_mean_and_twice_std:
  fixes validator :: "kwargs \<Rightarrow> 'e + 'cv"
  shows
  "(let ev = call_events cvs x y title validator shuffle n_splits w
    in (printed ev = [] \<or>
        (\<exists>cv scores g.
           cvs (RandomForestClassifier []) x y cv ''accuracy'' (rng w) = (Inr scores, g) \<and>
           printed ev = [summary_line title (mean scores) (2 * std scores)]))
     \<and> (\<forall>cv1 cv scores g.
           validator [(''n_splits'', PInt n_splits)] = Inr cv1 \<and>
           (if truthy shuffle
            then validator [(''n_splits'', PInt n_splits), (''shuffle'', PBool True),
                            (''random_state'', PInt 52)]
            else Inr cv1) = Inr cv \<and>
           cvs (RandomForestClassifier []) x y cv ''accuracy'' (rng w) = (Inr scores, g)
           \<longrightarrow> printed ev
                 = [title @ '': '' @ fmt_02f (mean scores) @ '' (+/- '' @ fmt_02f (2 * std scores) @ '')'']
               \<and> 0 \<le> std scores
               \<and> (std scores)\<^sup>2 = mean (map (\<lambda>v. (v - mean scores)\<^sup>2) scores)))"
  by (auto simp: ra_defs summary_line_def std_nonneg std_squared mult.commute
      split: sum.splits prod.splits)

theorem rate_accuracy_prints_mean_and_twice_std_witness:
  "printed (call_events demo_cross_val_score () () ''K-Fold accuracy'' demo_validator (Some True) 5
              demo_world)
     = [''K-Fold accuracy: 0.75 (+/- 0.50)'']"
  using rate_accuracy_prints_mean_and_twice_std
      [of demo_cross_val_score "()" "()" "''K-Fold accuracy''" demo_validator "Some True" 5 demo_world]
  by (simp add: Let_def demo_validator_def demo_cross_val_score_def std_example mean_example
      fmt_examples)

text \<open>
  C1 as the spec states it fails: with the two fold scores 0.5 and 1.0 the standard
  deviation is 0.25, a line reporting it would end in \<open>(+/- 0.25)\<close>, and the line printed
  ends in \<open>(+/- 0.50)\<close>.
\<close>

theorem rate_accuracy_spread_counterexample:
  "printed (call_events demo_cross_val_score () () ''t'' demo_validator None 2 demo_world)
     = [''t: 0.75 (+/- 0.50)'']
   \<and> std [1 / 2, 1] = 1 / 4
   \<and> summary_line ''t'' (mean [1 / 2, 1]) (std [1 / 2, 1]) = ''t: 0.75 (+/- 0.25)''"
  by (simp add: ra_defs demo_validator_def demo_cross_val_score_def demo_world_def
      summary_line_def std_example mean_example fmt_examples)

text \<open>
  C2, as amended. \<open>rate_accuracy\<close> takes the feature matrix, the label vector, the
  validator with the optional \<open>shuffle\<close> flag, and \<open>n_splits\<close>. Every call starts by
  constructing a new \<open>RandomForestClassifier()\<close>. In every call in which the validator and
  \<open>cross_val_score\<close> return, it does exactly this, in this order: it constructs the
  classifier, calls the validator (a second time when \<open>shuffle\<close> is truthy), calls
  \<open>cross_val_score\<close> once with that classifier, the given \<open>x\<close> and \<open>y\<close>, the splitter and
  \<open>scoring="accuracy"\<close>, prints the one summary line made of the scores this call
  returned, leaves the library in the state this call returned, and returns \<open>None\<close>. It
  returns \<open>None\<close> in no other call: a call in which the validator or \<open>cross_val_score\<close>
  raises ends in an exception and prints nothing.
\<close>

theorem rate_accuracy_behaviour:
  fixes validator :: "kwargs \<Rightarrow> 'e + 'cv"
  shows
  "(let ev = call_events cvs x y title validator shuffle n_splits w;
        out = rate_accuracy cvs x y title validator shuffle n_splits w;
        random_forest = RandomForestClassifier [];
        kw1 = [(''n_splits'', PInt n_splits)];
        kw2 = [(''n_splits'', PInt n_splits), (''shuffle'', PBool True), (''random_state'', PInt 52)]
    in ev \<noteq> [] \<and> hd ev = Ev_new_estimator random_forest
       \<and> trace (snd out) = trace w @ ev
       \<and> (\<forall>cv1 cv scores g.
             validator kw1 = Inr cv1 \<and>
             (if truthy shuffle then validator kw2 else Inr cv1) = Inr cv \<and>
             cvs random_forest x y cv ''accuracy'' (rng w) = (Inr scores, g)
             \<longrightarrow> fst out = Inr ()
                 \<and> ev = [Ev_new_estimator random_forest, Ev_validator kw1]
                        @ (if truthy shuffle then [Ev_validator kw2] else [])
                        @ [Ev_cross_val_score random_forest x y cv ''accuracy'',
                           Ev_print (title @ '': '' @ fmt_02f (mean scores) @ '' (+/- ''
                                     @ fmt_02f (std scores * 2) @ '')'')]
                 \<and> rng (snd out) = g)
       \<and> (fst out = Inr () \<longrightarrow>
             (\<exists>cv1 cv scores g.
                validator kw1 = Inr cv1 \<and>
                (if truthy shuffle then validator kw2 else Inr cv1) = Inr cv \<and>
                cvs random_forest x y cv ''accuracy'' (rng w) = (Inr scores, g)))
       \<and> (\<forall>e. fst out = Inl e \<longrightarrow> printed ev = []))"
  by (auto simp: ra_defs summary_line_def split: sum.splits prod.splits)

theorem rate_accuracy_behaviour_witness:
  "fst (rate_accuracy demo_cross_val_score () () ''t'' demo_validator (Some True) 3 demo_world) = Inr ()
   \<and> call_events demo_cross_val_score () () ''t'' demo_validator (Some True) 3 demo_world
       = [Ev_new_estimator (RandomForestClassifier []),
          Ev_validator [(''n_splits'', PInt 3)],
          Ev_validator [(''n_splits'', PInt 3), (''shuffle'', PBool True), (''random_state'', PInt 52)],
          Ev_cross_val_score (RandomForestClassifier []) () ()
            [(''n_splits'', PInt 3), (''shuffle'', PBool True), (''random_state'', PInt 52)]
            ''accuracy'',
          Ev_print ''t: 0.75 (+/- 0.50)'']
   \<and> rng (snd (rate_accuracy demo_cross_val_score () () ''t'' demo_validator (Some True) 3 demo_world))
       = 1"
proof -
  note inst = rate_accuracy_behaviour
    [where cvs = demo_cross_val_score and x = "()" and y = "()" and title = "''t''"
       and validator = demo_validator and shuffle = "Some True" and n_splits = 3
       and w = demo_world, unfolded Let_def]
  have returns:
    "demo_validator [(''n_splits'', PInt 3)] = Inr [(''n_splits'', PInt 3)] \<and>
     (if truthy (Some True)
      then demo_validator [(''n_splits'', PInt 3), (''shuffle'', PBool True), (''random_state'', PInt 52)]
      else Inr [(''n_splits'', PInt 3)])
       = Inr [(''n_splits'', PInt 3), (''shuffle'', PBool True), (''random_state'', PInt 52)] \<and>
     demo_cross_val_score (RandomForestClassifier []) () ()
       [(''n_splits'', PInt 3), (''shuffle'', PBool True), (''random_state'', PInt 52)]
       ''accuracy'' (rng demo_world) = (Inr [1 / 2, 1], 1)"
    by (simp add: demo_validator_def demo_cross_val_score_def demo_world_def)
  note run = inst [THEN conjunct2, THEN conjunct2, THEN conjunct2, THEN conjunct1, rule_format,
      OF returns]
  from run show ?thesis
    by (simp add: std_example mean_example fmt_examples)
qed

text \<open>
  C2 as the spec states it, for every call, fails where the library raises: with a
  validator that, like \<open>KFold\<close>, requires at least two splits, the call with
  \<open>n_splits=1\<close> ends in \<open>ValueError\<close>; it scores nothing, prints nothing and does not
  return \<open>None\<close>.
\<close>

theorem rate_accuracy_every_call_counterexample:
  "fst (rate_accuracy demo_cross_val_score () () ''t'' two_fold_validator (Some True) 1 demo_world)
     = Inl ''ValueError''
   \<and> printed (call_events demo_cross_val_score () () ''t'' two_fold_validator (Some True) 1 demo_world)
     = []
   \<and> scoring_calls (call_events demo_cross_val_score () () ''t'' two_fold_validator (Some True) 1
        demo_world) = []"
  by (simp add: ra_defs two_fold_validator_def demo_world_def)




text \<open>
  C7. Neither \<open>rate_accuracy\<close> nor the grid-search cell handles an error. In
  \<open>rate_accuracy\<close> an exception of the first validator call, of the second one, or of
  \<open>cross_val_score\<close> is the result of the call, unchanged; nothing is printed, no call is
  repeated and no later library call is made; and every exception a call ends in is one
  of these. In the grid-search cell an exception of \<open>train_test_split\<close> or of the fit of
  the search is the result of the cell, unchanged, and every exception the cell ends in is
  one of these.
\<close>

theorem exceptions_propagate:
  fixes validator :: "kwargs \<Rightarrow> 'e + 'cv" and lib :: "('l, 'h) library"
  shows
  "(let ev = call_events cvs x y title validator shuffle n_splits w;
        r = fst (rate_accuracy cvs x y title validator shuffle n_splits w);
        kw1 = [(''n_splits'', PInt n_splits)];
        kw2 = [(''n_splits'', PInt n_splits), (''shuffle'', PBool True), (''random_state'', PInt 52)]
    in (\<forall>e. validator kw1 = Inl e \<longrightarrow>
              r = Inl e \<and> printed ev = [] \<and> scoring_calls ev = [] \<and> validator_calls ev = [kw1])
     \<and> (\<forall>e cv1. validator kw1 = Inr cv1 \<and> truthy shuffle \<and> validator kw2 = Inl e \<longrightarrow>
              r = Inl e \<and> printed ev = [] \<and> scoring_calls ev = [] \<and> validator_calls ev = [kw1, kw2])
     \<and> (\<forall>e cv1 cv g.
              validator kw1 = Inr cv1 \<and> (if truthy shuffle then validator kw2 else Inr cv1) = Inr cv \<and>
              cvs (RandomForestClassifier []) x y cv ''accuracy'' (rng w) = (Inl e, g) \<longrightarrow>
              r = Inl e \<and> printed ev = [] \<and> length (scoring_calls ev) = 1)
     \<and> (\<forall>e. r = Inl e \<longrightarrow>
              validator kw1 = Inl e \<or> (truthy shuffle \<and> validator kw2 = Inl e) \<or>
              (\<exists>cv g. cvs (RandomForestClassifier []) x y cv ''accuracy'' (rng w) = (Inl e, g))))
   \<and> (\<forall>e. train_test_split (lib_permutation lib) x_iris y_iris (3 / 10) (Some (PInt 52)) (rng wk)
             = Inl e \<longrightarrow>
           fst (cell8 lib x_iris y_iris wk) = Inl e)
   \<and> (\<forall>e x_train x_test y_train y_test g.
         train_test_split (lib_permutation lib) x_iris y_iris (3 / 10) (Some (PInt 52)) (rng wk)
           = (Inr (x_train, x_test, y_train, y_test) :: 'l exn + frame \<times> frame \<times> series \<times> series) \<and>
         GridSearchCV_fit (lib_mean_test_score lib (RandomForestClassifier []) x_train y_train)
           parameters_grid (rng wk) = (Inl e, g) \<longrightarrow>
         fst (cell8 lib x_iris y_iris wk) = Inl e)
   \<and> (\<forall>e. fst (cell8 lib x_iris y_iris wk) = Inl e \<longrightarrow>
         train_test_split (lib_permutation lib) x_iris y_iris (3 / 10) (Some (PInt 52)) (rng wk)
           = Inl e
         \<or> (\<exists>x_train x_test y_train y_test g.
              train_test_split (lib_permutation lib) x_iris y_iris (3 / 10) (Some (PInt 52)) (rng wk)
                = (Inr (x_train, x_test, y_train, y_test)
                   :: 'l exn + frame \<times> frame \<times> series \<times> series) \<and>
              GridSearchCV_fit (lib_mean_test_score lib (RandomForestClassifier []) x_train y_train)
                parameters_grid (rng wk) = (Inl e, g)))"
proof (intro conjI)
  show "let ev = call_events cvs x y title validator shuffle n_splits w;
        r = fst (rate_accuracy cvs x y title validator shuffle n_splits w);
        kw1 = [(''n_splits'', PInt n_splits)];
        kw2 = [(''n_splits'', PInt n_splits), (''shuffle'', PBool True), (''random_state'', PInt 52)]
    in (\<forall>e. validator kw1 = Inl e \<longrightarrow>
              r = Inl e \<and> printed ev = [] \<and> scoring_calls ev = [] \<and> validator_calls ev = [kw1])
     \<and> (\<forall>e cv1. validator kw1 = Inr cv1 \<and> truthy shuffle \<and> validator kw2 = Inl e \<longrightarrow>
              r = Inl e \<and> printed ev = [] \<and> scoring_calls ev = [] \<and> validator_calls ev = [kw1, kw2])
     \<and> (\<forall>e cv1 cv g.
              validator kw1 = Inr cv1 \<and> (if truthy shuffle then validator kw2 else Inr cv1) = Inr cv \<and>
              cvs (RandomForestClassifier []) x y cv ''accuracy'' (rng w) = (Inl e, g) \<longrightarrow>
              r = Inl e \<and> printed ev = [] \<and> length (scoring_calls ev) = 1)
     \<and> (\<forall>e. r = Inl e \<longrightarrow>
              validator kw1 = Inl e \<or> (truthy shuffle \<and> validator kw2 = Inl e) \<or>
              (\<exists>cv g. cvs (RandomForestClassifier []) x y cv ''accuracy'' (rng w) = (Inl e, g)))"
    by (auto simp: ra_defs split: sum.splits prod.splits if_splits)
next
  show "\<forall>e. train_test_split (lib_permutation lib) x_iris y_iris (3 / 10) (Some (PInt 52)) (rng wk)
             = Inl e \<longrightarrow>
           fst (cell8 lib x_iris y_iris wk) = Inl e"
    by (simp add: cell8_def Let_def)
next
  show "\<forall>e x_train x_test y_train y_test g.
         train_test_split (lib_permutation lib) x_iris y_iris (3 / 10) (Some (PInt 52)) (rng wk)
           = (Inr (x_train, x_test, y_train, y_test) :: 'l exn + frame \<times> frame \<times> series \<times> series) \<and>
         GridSearchCV_fit (lib_mean_test_score lib (RandomForestClassifier []) x_train y_train)
           parameters_grid (rng wk) = (Inl e, g) \<longrightarrow>
         fst (cell8 lib x_iris y_iris wk) = Inl e"
    by (auto simp: cell8_def Let_def)
next
  show "\<forall>e. fst (cell8 lib x_iris y_iris wk) = Inl e \<longrightarrow>
         train_test_split (lib_permutation lib) x_iris y_iris (3 / 10) (Some (PInt 52)) (rng wk)
           = Inl e
         \<or> (\<exists>x_train x_test y_train y_test g.
              train_test_split (lib_permutation lib) x_iris y_iris (3 / 10) (Some (PInt 52)) (rng wk)
                = (Inr (x_train, x_test, y_train, y_test)
                   :: 'l exn + frame \<times> frame \<times> series \<times> series) \<and>
              GridSearchCV_fit (lib_mean_test_score lib (RandomForestClassifier []) x_train y_train)
                parameters_grid (rng wk) = (Inl e, g))"
    by (auto simp: cell8_def Let_def split: sum.splits prod.splits)
qed

theorem exceptions_propagate_witness:
  "fst (rate_accuracy demo_cross_val_score () () ''t'' failing_validator None 3 demo_world)
     = Inl ''ValueError''
   \<and> printed (call_events demo_cross_val_score () () ''t'' failing_validator None 3 demo_world) = []
   \<and> fst (rate_accuracy demo_cross_val_score () () ''t'' unshuffled_validator (Some True) 3 demo_world)
     = Inl ''TypeError''
   \<and> scoring_calls (call_events demo_cross_val_score () () ''t'' unshuffled_validator (Some True) 3
         demo_world) = []
   \<and> fst (rate_accuracy failing_cross_val_score () () ''t'' demo_validator None 3 demo_world)
     = Inl ''NotFittedError''
   \<and> printed (call_events failing_cross_val_score () () ''t'' demo_validator None 3 demo_world) = []
   \<and> fst (cell8 demo_library empty_frame [] demo_kernel) = Inl ValueError
   \<and> fst (cell8 failing_library demo_x demo_y demo_kernel) = Inl (Raised ''ValueError'')"
proof -
  note a = exceptions_propagate
    [of demo_cross_val_score "()" "()" "''t''" failing_validator None 3 demo_world
        demo_library empty_frame "[]" demo_kernel,
     unfolded Let_def]
  note b = exceptions_propagate
    [of demo_cross_val_score "()" "()" "''t''" unshuffled_validator "Some True" 3 demo_world
        failing_library demo_x demo_y demo_kernel,
     unfolded Let_def]
  note c = exceptions_propagate
    [of failing_cross_val_score "()" "()" "''t''" demo_validator None 3 demo_world
        failing_library demo_x demo_y demo_kernel,
     unfolded Let_def]
  have a1: "failing_validator [(''n_splits'', PInt 3)] = Inl ''ValueError''"
    by (simp add: failing_validator_def)
  have b1: "unshuffled_validator [(''n_splits'', PInt 3)] = Inr [(''n_splits'', PInt 3)]
      \<and> truthy (Some True)
      \<and> unshuffled_validator [(''n_splits'', PInt 3), (''shuffle'', PBool True),
            (''random_state'', PInt 52)] = Inl ''TypeError''"
    by (simp add: unshuffled_validator_def)
  have c1: "demo_validator [(''n_splits'', PInt 3)] = Inr [(''n_splits'', PInt 3)]
      \<and> (if truthy None then demo_validator [(''n_splits'', PInt 3), (''shuffle'', PBool True),
            (''random_state'', PInt 52)] else Inr [(''n_splits'', PInt 3)])
          = Inr [(''n_splits'', PInt 3)]
      \<and> failing_cross_val_score (RandomForestClassifier []) () () [(''n_splits'', PInt 3)]
            ''accuracy'' (rng demo_world) = (Inl ''NotFittedError'', Suc (rng demo_world))"
    by (simp add: demo_validator_def failing_cross_val_score_def)
  have a5: "train_test_split (lib_permutation demo_library) empty_frame [] (3 / 10)
      (Some (PInt 52)) (rng demo_kernel) = (Inl ValueError :: string exn + _)"
    by (rule empty_split)
  have b6: "train_test_split (lib_permutation failing_library) demo_x demo_y (3 / 10)
        (Some (PInt 52)) (rng demo_kernel)
      = (Inr (take_rows demo_x [2, 1, 0], take_rows demo_x [4, 3],
             [PStr ''Iris-setosa'', PStr ''Iris-setosa'', PStr ''Iris-setosa''],
             [PStr ''Iris-setosa'', PStr ''Iris-setosa''])
         :: string exn + frame \<times> frame \<times> series \<times> series)
      \<and> GridSearchCV_fit (lib_mean_test_score failing_library (RandomForestClassifier [])
           (take_rows demo_x [2, 1, 0])
           [PStr ''Iris-setosa'', PStr ''Iris-setosa'', PStr ''Iris-setosa''])
           parameters_grid (rng demo_kernel) = (Inl (Raised ''ValueError''), rng demo_kernel)"
    by (simp add: failing_split failing_fit)
  note ra = a [THEN conjunct1, THEN conjunct1, rule_format, OF a1]
  note rb = b [THEN conjunct1, THEN conjunct2, THEN conjunct1, rule_format, OF b1]
  note rc = c [THEN conjunct1, THEN conjunct2, THEN conjunct2, THEN conjunct1, rule_format, OF c1]
  note ga = a [THEN conjunct2, THEN conjunct1, rule_format, OF a5]
  note gb = b [THEN conjunct2, THEN conjunct2, THEN conjunct1, rule_format, OF b6]
  show ?thesis
  proof (intro conjI)
    show "fst (rate_accuracy demo_cross_val_score () () ''t'' failing_validator None 3 demo_world)
        = Inl ''ValueError''"
      using ra by (rule conjunct1)
    show "printed (call_events demo_cross_val_score () () ''t'' failing_validator None 3 demo_world)
        = []"
      using ra [THEN conjunct2] by (rule conjunct1)
    show "fst (rate_accuracy demo_cross_val_score () () ''t'' unshuffled_validator (Some True) 3
          demo_world) = Inl ''TypeError''"
      using rb by (rule conjunct1)
    show "scoring_calls (call_events demo_cross_val_score () () ''t'' unshuffled_validator
          (Some True) 3 demo_world) = []"
      using rb [THEN conjunct2, THEN conjunct2] by (rule conjunct1)
    show "fst (rate_accuracy failing_cross_val_score () () ''t'' demo_validator None 3 demo_world)
        = Inl ''NotFittedError''"
      using rc by (rule conjunct1)
    show "printed (call_events failing_cross_val_score () () ''t'' demo_validator None 3 demo_world)
        = []"
      using rc [THEN conjunct2] by (rule conjunct1)
    show "fst (cell8 demo_library empty_frame [] demo_kernel) = Inl ValueError"
      by (rule ga)
    show "fst (cell8 failing_library demo_x demo_y demo_kernel) = Inl (Raised ''ValueError'')"
      by (rule gb)
  qed
qed

section \<open>The claims about the notebook\<close>



text \<open>
  C6, as amended. A run reads one file, \<open>../datasets/iris.csv\<close>, and nothing else of
  the file system. What it shows is, in order: a preview of the dataset (its first five
  rows, the value of \<open>iris.head()\<close>), ten lines of accuracy statistics, the best
  hyperparameters found, and the accuracy on the test part. A run that an exception stops
  shows a proper prefix of these; a run that ends shows all of them.
\<close>

theorem notebook_interface:
  fixes lib :: "('e, 'g) library"
  shows
  "files_read (new_events w (snd (notebook lib w))) = [''../datasets/iris.csv'']
   \<and> output_kinds (new_events w (snd (notebook lib w)))
       = take (length (output_kinds (new_events w (snd (notebook lib w))))) expected_outputs
   \<and> (case fst (notebook lib w) of
         Inl e \<Rightarrow> length (output_kinds (new_events w (snd (notebook lib w)))) < length expected_outputs
       | Inr u \<Rightarrow> output_kinds (new_events w (snd (notebook lib w))) = expected_outputs)"
  by (rule notebook_io)

theorem notebook_interface_witness:
  "files_read (trace (snd (notebook demo_library demo_kernel))) = [''../datasets/iris.csv'']
   \<and> length (output_kinds (trace (snd (notebook demo_library demo_kernel)))) = 13"
proof -
  have ne: "new_events demo_kernel (snd (notebook demo_library demo_kernel))
      = trace (snd (notebook demo_library demo_kernel))"
    by (simp add: new_events_def demo_kernel_def)
  note inst = notebook_interface [where lib = demo_library and w = demo_kernel, unfolded ne]
  have "output_kinds (trace (snd (notebook demo_library demo_kernel))) = expected_outputs"
    using inst [THEN conjunct2, THEN conjunct2] demo_notebook by simp
  then have "length (output_kinds (trace (snd (notebook demo_library demo_kernel)))) = 13"
    by (simp add: expected_outputs_def)
  with inst [THEN conjunct1] show ?thesis
    by (rule conjI)
qed

text \<open>
  C6 as the spec states it fails: the first thing a run shows is neither an accuracy
  statistic nor the best hyperparameters but the first rows of the dataset.
\<close>

theorem notebook_outputs_counterexample:
  "output_kinds (trace (snd (notebook demo_library demo_kernel)))
     = [Dataset_preview,
        Accuracy_statistic, Accuracy_statistic, Accuracy_statistic, Accuracy_statistic,
        Accuracy_statistic, Accuracy_statistic, Accuracy_statistic, Accuracy_statistic,
        Accuracy_statistic, Accuracy_statistic,
        Best_hyperparameters, Accuracy_statistic]
   \<and> \<not> list_all (\<lambda>k. k = Accuracy_statistic \<or> k = Best_hyperparameters)
         (output_kinds (trace (snd (notebook demo_library demo_kernel))))"
proof -
  have "new_events demo_kernel (snd (notebook demo_library demo_kernel))
      = trace (snd (notebook demo_library demo_kernel))"
    by (simp add: new_events_def demo_kernel_def)
  with notebook_io [of demo_kernel demo_library] demo_notebook
  have "output_kinds (trace (snd (notebook demo_library demo_kernel))) = expected_outputs"
    by simp
  then show ?thesis
    by (simp add: expected_outputs_def numeral_eq_Suc)
qed

text \<open>
  C3. The grid has six parameter names with three candidate values each. The candidates of
  the search are the 729 different combinations of the Cartesian product, and every
  assignment of one candidate value to each name is among them. A fit that returns has
  given every one of them a score, once and in order, and its best parameters are a
  candidate whose score no other exceeds; the fit returns whenever the scoring of a
  candidate never raises. Cell 8, whenever \<open>train_test_split\<close> and the fit return, does
  exactly this: it splits the data with \<open>test_size=0.3\<close> and \<open>random_state=52\<close>, builds the
  search from a new \<open>RandomForestClassifier()\<close> and \<open>parameters_grid\<close>, fits it on the
  training part, and shows the best parameters of that fit.
\<close>

theorem grid_search_exhaustive:
  fixes lib :: "('e, 'g) library" and score_of :: "kwargs \<Rightarrow> 'g \<Rightarrow> ('e exn + real) \<times> 'g"
  shows
  "length parameters_grid = 6
   \<and> list_all (\<lambda>kv. length (snd kv) = 3) parameters_grid
   \<and> length (ParameterGrid parameters_grid) = 729
   \<and> distinct (ParameterGrid parameters_grid)
   \<and> (\<forall>choice. (\<forall>kv \<in> set parameters_grid. choice (fst kv) \<in> set (snd kv)) \<longrightarrow>
         map (\<lambda>kv. (fst kv, choice (fst kv))) (sort_key fst parameters_grid)
           \<in> set (ParameterGrid parameters_grid))
   \<and> (\<forall>g results best g'.
         GridSearchCV_fit score_of parameters_grid g = (Inr (results, best), g') \<longrightarrow>
           map fst results = ParameterGrid parameters_grid
           \<and> (\<forall>r \<in> set results. \<exists>g1 g2. score_of (fst r) g1 = (Inr (snd r), g2))
           \<and> (\<exists>s. (best, s) \<in> set results \<and> (\<forall>r \<in> set results. snd r \<le> s)))
   \<and> (\<forall>x y w x_train x_test y_train y_test best w'.
         cell8 lib x y w = (Inr ((x_train, x_test, y_train, y_test), best), w') \<longrightarrow>
           last (trace w') = Ev_display (Out_params best)
           \<and> (\<exists>results g'.
                 GridSearchCV_fit (lib_mean_test_score lib (RandomForestClassifier []) x_train y_train)
                   parameters_grid (rng w) = (Inr (results, best), g')))
   \<and> (\<forall>g. (\<forall>c g1. \<exists>s g2. score_of c g1 = (Inr s, g2)) \<longrightarrow>
         (\<exists>results best g'. GridSearchCV_fit score_of parameters_grid g = (Inr (results, best), g')))
   \<and> (\<forall>x y w x_train x_test y_train y_test results best g'.
         train_test_split (lib_permutation lib) x y (3 / 10) (Some (PInt 52)) (rng w)
           = (Inr (x_train, x_test, y_train, y_test)
              :: 'e exn + frame \<times> frame \<times> series \<times> series) \<and>
         GridSearchCV_fit (lib_mean_test_score lib (RandomForestClassifier []) x_train y_train)
           parameters_grid (rng w) = (Inr (results, best), g') \<longrightarrow>
           fst (cell8 lib x y w) = Inr ((x_train, x_test, y_train, y_test), best)
           \<and> new_events w (snd (cell8 lib x y w))
               = [Ev_train_test_split x y
                    [(''test_size'', PFloat (3 / 10)), (''random_state'', PInt 52)],
                  Ev_new_estimator (RandomForestClassifier []),
                  Ev_GridSearchCV (RandomForestClassifier []) parameters_grid,
                  Ev_fit x_train y_train,
                  Ev_display (Out_params best)]
           \<and> rng (snd (cell8 lib x y w)) = g')"
proof -
  have shape: "length parameters_grid = 6" "list_all (\<lambda>kv. length (snd kv) = 3) parameters_grid"
    by (simp_all add: parameters_grid_def)
  have count: "length (ParameterGrid parameters_grid) = 729"
    by (simp add: length_ParameterGrid sorted_grid)
  have dist: "distinct (ParameterGrid parameters_grid)"
    by (rule distinct_ParameterGrid) (simp add: parameters_grid_def)
  have every: "\<forall>choice. (\<forall>kv \<in> set parameters_grid. choice (fst kv) \<in> set (snd kv)) \<longrightarrow>
         map (\<lambda>kv. (fst kv, choice (fst kv))) (sort_key fst parameters_grid)
           \<in> set (ParameterGrid parameters_grid)"
    by (intro allI impI) (rule choice_in_ParameterGrid)
  have fit: "\<forall>g results best g'.
         GridSearchCV_fit score_of parameters_grid g = (Inr (results, best), g') \<longrightarrow>
           map fst results = ParameterGrid parameters_grid
           \<and> (\<forall>r \<in> set results. \<exists>g1 g2. score_of (fst r) g1 = (Inr (snd r), g2))
           \<and> (\<exists>s. (best, s) \<in> set results \<and> (\<forall>r \<in> set results. snd r \<le> s))"
  proof (intro allI impI)
    fix g results best g'
    assume f: "GridSearchCV_fit score_of parameters_grid g = (Inr (results, best), g')"
    then obtain b where ev: "evaluate_candidates score_of (ParameterGrid parameters_grid) g = (Inr results, g')"
      and b: "best_candidate results = Some b" and best: "best = fst b"
      by (auto simp: GridSearchCV_fit_def split: prod.splits sum.splits option.splits)
    from best_candidate_Some [OF b] best
    have "(best, snd b) \<in> set results \<and> (\<forall>r \<in> set results. snd r \<le> snd b)"
      by simp
    with evaluate_candidates_Inr [OF ev] show "map fst results = ParameterGrid parameters_grid
           \<and> (\<forall>r \<in> set results. \<exists>g1 g2. score_of (fst r) g1 = (Inr (snd r), g2))
           \<and> (\<exists>s. (best, s) \<in> set results \<and> (\<forall>r \<in> set results. snd r \<le> s))"
      by blast
  qed
  have shown: "\<forall>x y w x_train x_test y_train y_test best w'.
         cell8 lib x y w = (Inr ((x_train, x_test, y_train, y_test), best), w') \<longrightarrow>
           last (trace w') = Ev_display (Out_params best)
           \<and> (\<exists>results g'.
                 GridSearchCV_fit (lib_mean_test_score lib (RandomForestClassifier []) x_train y_train)
                   parameters_grid (rng w) = (Inr (results, best), g'))"
    by (auto simp: cell8_def Let_def split: sum.splits prod.splits)
  have total: "\<forall>g. (\<forall>c g1. \<exists>s g2. score_of c g1 = (Inr s, g2)) \<longrightarrow>
         (\<exists>results best g'. GridSearchCV_fit score_of parameters_grid g = (Inr (results, best), g'))"
    by (intro allI impI) (rule GridSearchCV_fit_total)
  have run: "\<forall>x y w x_train x_test y_train y_test results best g'.
         train_test_split (lib_permutation lib) x y (3 / 10) (Some (PInt 52)) (rng w)
           = (Inr (x_train, x_test, y_train, y_test)
              :: 'e exn + frame \<times> frame \<times> series \<times> series) \<and>
         GridSearchCV_fit (lib_mean_test_score lib (RandomForestClassifier []) x_train y_train)
           parameters_grid (rng w) = (Inr (results, best), g') \<longrightarrow>
           fst (cell8 lib x y w) = Inr ((x_train, x_test, y_train, y_test), best)
           \<and> new_events w (snd (cell8 lib x y w))
               = [Ev_train_test_split x y
                    [(''test_size'', PFloat (3 / 10)), (''random_state'', PInt 52)],
                  Ev_new_estimator (RandomForestClassifier []),
                  Ev_GridSearchCV (RandomForestClassifier []) parameters_grid,
                  Ev_fit x_train y_train,
                  Ev_display (Out_params best)]
           \<and> rng (snd (cell8 lib x y w)) = g'"
    by (intro allI impI, elim conjE, intro conjI) (rule cell8_run, assumption, assumption)+
  from shape count dist every fit shown total run show ?thesis
    by (intro conjI)
qed

theorem grid_search_exhaustive_witness:
  "notebook_best \<in> set (ParameterGrid parameters_grid)
   \<and> GridSearchCV_fit (lib_mean_test_score demo_library (RandomForestClassifier [])
         (take_rows demo_x [2, 1, 0]) [PStr ''Iris-setosa'', PStr ''Iris-setosa'', PStr ''Iris-setosa''])
         parameters_grid 0
       = (Inr (demo_results, notebook_best), 0)
   \<and> map fst demo_results = ParameterGrid parameters_grid
   \<and> length demo_results = 729
   \<and> (\<exists>s. (notebook_best, s) \<in> set demo_results)
   \<and> fst (cell8 demo_library demo_x demo_y demo_kernel)
       = Inr ((take_rows demo_x [2, 1, 0], take_rows demo_x [4, 3],
               [PStr ''Iris-setosa'', PStr ''Iris-setosa'', PStr ''Iris-setosa''],
               [PStr ''Iris-setosa'', PStr ''Iris-setosa'']), notebook_best)
   \<and> trace (snd (cell8 demo_library demo_x demo_y demo_kernel))
       = [Ev_train_test_split demo_x demo_y
            [(''test_size'', PFloat (3 / 10)), (''random_state'', PInt 52)],
          Ev_new_estimator (RandomForestClassifier []),
          Ev_GridSearchCV (RandomForestClassifier []) parameters_grid,
          Ev_fit (take_rows demo_x [2, 1, 0])
            [PStr ''Iris-setosa'', PStr ''Iris-setosa'', PStr ''Iris-setosa''],
          Ev_display (Out_params notebook_best)]"
proof -
  note inst = grid_search_exhaustive
    [of "lib_mean_test_score demo_library (RandomForestClassifier [])
           (take_rows demo_x [2, 1, 0]) [PStr ''Iris-setosa'', PStr ''Iris-setosa'', PStr ''Iris-setosa'']"
        demo_library]
  note count = inst [THEN conjunct2, THEN conjunct2, THEN conjunct1]
  note every = inst [THEN conjunct2, THEN conjunct2, THEN conjunct2, THEN conjunct2,
      THEN conjunct1, rule_format]
  note fits = inst [THEN conjunct2, THEN conjunct2, THEN conjunct2, THEN conjunct2,
      THEN conjunct2, THEN conjunct1, rule_format]
  note runs = inst [THEN conjunct2, THEN conjunct2, THEN conjunct2, THEN conjunct2,
      THEN conjunct2, THEN conjunct2, THEN conjunct2, THEN conjunct2, rule_format]
  have choice: "notebook_choice (fst kv) \<in> set (snd kv)" if "kv \<in> set parameters_grid" for kv
    using that by (auto simp: parameters_grid_def notebook_choice_def notebook_best_def)
  have best: "map (\<lambda>kv. (fst kv, notebook_choice (fst kv))) (sort_key fst parameters_grid)
      = notebook_best"
    by (simp add: sorted_grid notebook_choice_def notebook_best_def)
  have member: "notebook_best \<in> set (ParameterGrid parameters_grid)"
    using every [of notebook_choice, OF choice] unfolding best .
  have fit: "GridSearchCV_fit (lib_mean_test_score demo_library (RandomForestClassifier [])
         (take_rows demo_x [2, 1, 0]) [PStr ''Iris-setosa'', PStr ''Iris-setosa'', PStr ''Iris-setosa''])
         parameters_grid 0
       = (Inr (demo_results, notebook_best), 0)"
    by (rule demo_fit)
  have results: "map fst demo_results = ParameterGrid parameters_grid"
    using fits [OF fit] by (rule conjunct1)
  have "length (map fst demo_results) = 729"
    unfolding results by (rule count)
  then have number: "length demo_results = 729"
    by simp
  have top: "\<exists>s. (notebook_best, s) \<in> set demo_results"
    using fits [OF fit, THEN conjunct2, THEN conjunct2] by (elim exE conjE) (rule exI)
  have split: "train_test_split (lib_permutation demo_library) demo_x demo_y (3 / 10)
        (Some (PInt 52)) (rng demo_kernel)
      = (Inr (take_rows demo_x [2, 1, 0], take_rows demo_x [4, 3],
             [PStr ''Iris-setosa'', PStr ''Iris-setosa'', PStr ''Iris-setosa''],
             [PStr ''Iris-setosa'', PStr ''Iris-setosa''])
         :: string exn + frame \<times> frame \<times> series \<times> series)"
    by (rule demo_split)
  have fit': "GridSearchCV_fit (lib_mean_test_score demo_library (RandomForestClassifier [])
         (take_rows demo_x [2, 1, 0]) [PStr ''Iris-setosa'', PStr ''Iris-setosa'', PStr ''Iris-setosa''])
         parameters_grid (rng demo_kernel)
       = (Inr (demo_results, notebook_best), rng demo_kernel)"
    by (rule demo_fit)
  note run = runs [OF conjI [OF split fit']]
  have returned: "fst (cell8 demo_library demo_x demo_y demo_kernel)
       = Inr ((take_rows demo_x [2, 1, 0], take_rows demo_x [4, 3],
               [PStr ''Iris-setosa'', PStr ''Iris-setosa'', PStr ''Iris-setosa''],
               [PStr ''Iris-setosa'', PStr ''Iris-setosa'']), notebook_best)"
    using run by (rule conjunct1)
  have ne: "new_events demo_kernel (snd (cell8 demo_library demo_x demo_y demo_kernel))
      = trace (snd (cell8 demo_library demo_x demo_y demo_kernel))"
    by (simp add: new_events_def demo_kernel_def)
  have events: "trace (snd (cell8 demo_library demo_x demo_y demo_kernel))
       = [Ev_train_test_split demo_x demo_y
            [(''test_size'', PFloat (3 / 10)), (''random_state'', PInt 52)],
          Ev_new_estimator (RandomForestClassifier []),
          Ev_GridSearchCV (RandomForestClassifier []) parameters_grid,
          Ev_fit (take_rows demo_x [2, 1, 0])
            [PStr ''Iris-setosa'', PStr ''Iris-setosa'', PStr ''Iris-setosa''],
          Ev_display (Out_params notebook_best)]"
    using run [THEN conjunct2, THEN conjunct1] unfolding ne .
  show ?thesis
    by (intro conjI) (fact member fit results number top returned events)+
qed

text \<open>
  C5. The features and the labels cell 3 takes from the dataset have one entry per row of
  the dataset: row \<open>i\<close> of the features is row \<open>i\<close> of the dataset without its first
  and last cell, and label \<open>i\<close> is its last cell. The train/test split keeps them
  together: when the generator draws a permutation of the row numbers, every row number is
  in exactly one of the two parts, and each part takes the feature rows and the labels of
  the same row numbers, in the same order.
\<close>

theorem features_and_labels_paired:
  fixes permutation :: "'g rng_source \<Rightarrow> nat \<Rightarrow> nat list"
  shows
  "(\<forall>iris x y. cell3 iris = (Inr (x, y) :: 'e exn + frame \<times> series) \<longrightarrow>
       length (rows x) = length y
       \<and> (\<forall>i < length (rows iris).
             rows x ! i = py_slice 1 (- 1) (rows iris ! i)
             \<and> y ! i = rows iris ! i ! (length (columns iris) - 1)))
   \<and> (\<forall>x y test_size random_state g x_train x_test y_train y_test.
         train_test_split permutation x y test_size random_state g
           = (Inr (x_train, x_test, y_train, y_test) :: 'e exn + frame \<times> frame \<times> series \<times> series)
         \<and> (\<forall>src n. distinct (permutation src n) \<and> set (permutation src n) = {..<n}) \<longrightarrow>
         (\<exists>train test.
            distinct (test @ train) \<and> set (test @ train) = {..<length (rows x)}
            \<and> length y = length (rows x)
            \<and> rows x_train = map (\<lambda>i. rows x ! i) train \<and> y_train = map (\<lambda>i. y ! i) train
            \<and> rows x_test = map (\<lambda>i. rows x ! i) test \<and> y_test = map (\<lambda>i. y ! i) test))"
proof (intro conjI allI impI)
  fix iris x y
  assume c: "cell3 iris = (Inr (x, y) :: 'e exn + frame \<times> series)"
  from cell3_rows(1,2) [OF c] show "length (rows x) = length y"
    by simp
next
  fix iris x y i
  assume c: "cell3 iris = (Inr (x, y) :: 'e exn + frame \<times> series)" and i: "i < length (rows iris)"
  from cell3_rows(3) [OF c] i show "rows x ! i = py_slice 1 (- 1) (rows iris ! i)"
    and "y ! i = rows iris ! i ! (length (columns iris) - 1)"
    by simp_all
next
  fix x y test_size random_state g x_train x_test y_train y_test
  assume "train_test_split permutation x y test_size random_state g
           = (Inr (x_train, x_test, y_train, y_test) :: 'e exn + frame \<times> frame \<times> series \<times> series)
         \<and> (\<forall>src n. distinct (permutation src n) \<and> set (permutation src n) = {..<n})"
  then show "\<exists>train test.
            distinct (test @ train) \<and> set (test @ train) = {..<length (rows x)}
            \<and> length y = length (rows x)
            \<and> rows x_train = map (\<lambda>i. rows x ! i) train \<and> y_train = map (\<lambda>i. y ! i) train
            \<and> rows x_test = map (\<lambda>i. rows x ! i) test \<and> y_test = map (\<lambda>i. y ! i) test"
    by (elim conjE) (rule train_test_split_Inr)
qed

theorem features_and_labels_paired_witness:
  "cell3 demo_frame = (Inr (demo_x, demo_y) :: string exn + frame \<times> series)
   \<and> length (rows demo_x) = length demo_y
   \<and> rows demo_x ! 0 = py_slice 1 (- 1) (rows demo_frame ! 0)
   \<and> demo_y ! 0 = rows demo_frame ! 0 ! (length (columns demo_frame) - 1)
   \<and> (\<exists>train test.
         distinct (test @ train) \<and> set (test @ train) = {..<length (rows demo_x)}
         \<and> length demo_y = length (rows demo_x)
         \<and> rows (take_rows demo_x [2, 1, 0]) = map (\<lambda>i. rows demo_x ! i) train
         \<and> [PStr ''Iris-setosa'', PStr ''Iris-setosa'', PStr ''Iris-setosa'']
             = map (\<lambda>i. demo_y ! i) train
         \<and> rows (take_rows demo_x [4, 3]) = map (\<lambda>i. rows demo_x ! i) test
         \<and> [PStr ''Iris-setosa'', PStr ''Iris-setosa''] = map (\<lambda>i. demo_y ! i) test)"
proof -
  note inst = features_and_labels_paired [where ?'e = string, of "lib_permutation demo_library"]
  note extraction = inst [THEN conjunct1, rule_format, OF cell3_demo]
  note partition = inst [THEN conjunct2, rule_format,
      OF conjI [OF demo_split [of 0] demo_permutation]]
  have first_row: "0 < length (rows demo_frame)"
    by (simp add: demo_frame_def)
  show ?thesis
  proof (intro conjI)
    show "cell3 demo_frame = (Inr (demo_x, demo_y) :: string exn + frame \<times> series)"
      by (rule cell3_demo)
    show "length (rows demo_x) = length demo_y"
      using extraction by (rule conjunct1)
    show "rows demo_x ! 0 = py_slice 1 (- 1) (rows demo_frame ! 0)"
      using extraction [THEN conjunct2, rule_format, OF first_row] by (rule conjunct1)
    show "demo_y ! 0 = rows demo_frame ! 0 ! (length (columns demo_frame) - 1)"
      using extraction [THEN conjunct2, rule_format, OF first_row] by (rule conjunct2)
    show "\<exists>train test.
         distinct (test @ train) \<and> set (test @ train) = {..<length (rows demo_x)}
         \<and> length demo_y = length (rows demo_x)
         \<and> rows (take_rows demo_x [2, 1, 0]) = map (\<lambda>i. rows demo_x ! i) train
         \<and> [PStr ''Iris-setosa'', PStr ''Iris-setosa'', PStr ''Iris-setosa'']
             = map (\<lambda>i. demo_y ! i) train
         \<and> rows (take_rows demo_x [4, 3]) = map (\<lambda>i. rows demo_x ! i) test
         \<and> [PStr ''Iris-setosa'', PStr ''Iris-setosa''] = map (\<lambda>i. demo_y ! i) test"
      by (rule partition)
  qed
qed

text \<open>
  C10, as amended. The train/test split is seeded with 52: the parts cell 8 works on are
  the same whatever the state of the global generator. Every call of \<open>rate_accuracy\<close>
  with \<open>shuffle=True\<close> (cells 4 to 6, \<open>KFold\<close> and \<open>StratifiedKFold\<close>) scores with a
  splitter built with \<open>random_state=52\<close>, whose folds do not depend on the global
  generator either. The calls of cell 7 build \<open>StratifiedShuffleSplit\<close> from \<open>n_splits\<close>
  alone: that splitter has no \<open>random_state\<close> and draws its folds from the global
  generator.
\<close>

theorem partitions_fixed_by_seed:
  fixes lib :: "('e, 'g) library"
  shows
  "(\<forall>x y w1 w2 parts1 best1 parts2 best2.
       fst (cell8 lib x y w1) = Inr (parts1, best1) \<and> fst (cell8 lib x y w2) = Inr (parts2, best2)
       \<longrightarrow> parts1 = parts2)
   \<and> (\<forall>x y w. \<forall>i \<in> set (cell4 @ cell5 @ cell6).
         list_all (\<lambda>cv. map_of (splitter_kwargs cv) ''random_state'' = Some (PInt 52)
                        \<and> (\<forall>g1 g2 ys. fold_assignment lib cv g1 ys = fold_assignment lib cv g2 ys))
           (splitters_scored (new_events w (snd (invoke lib x y i w)))))
   \<and> (\<forall>x y w. \<forall>i \<in> set cell7.
         list_all (\<lambda>cv. map_of (splitter_kwargs cv) ''random_state'' = None
                        \<and> (\<forall>g ys. fold_assignment lib cv g ys = lib_folds lib cv (Global g) ys))
           (splitters_scored (new_events w (snd (invoke lib x y i w)))))"
proof (intro conjI allI impI ballI)
  fix x y w1 w2 parts1 best1 parts2 best2
  assume "fst (cell8 lib x y w1) = Inr (parts1, best1) \<and> fst (cell8 lib x y w2) = Inr (parts2, best2)"
  then have "train_test_split (lib_permutation lib) x y (3 / 10) (Some (PInt 52)) (rng w1)
        = (Inr parts1 :: 'e exn + _)"
    and "train_test_split (lib_permutation lib) x y (3 / 10) (Some (PInt 52)) (rng w1)
        = (Inr parts2 :: 'e exn + _)"
    by (auto dest: cell8_partition)
  then show "parts1 = parts2"
    by simp
next
  fix x y w i
  assume i: "i \<in> set (cell4 @ cell5 @ cell6)"
  then have sh: "truthy (inv_shuffle i)"
    by (auto simp: cell4_def cell5_def cell6_def)
  show "list_all (\<lambda>cv. map_of (splitter_kwargs cv) ''random_state'' = Some (PInt 52)
                        \<and> (\<forall>g1 g2 ys. fold_assignment lib cv g1 ys = fold_assignment lib cv g2 ys))
           (splitters_scored (new_events w (snd (invoke lib x y i w))))"
    unfolding list_all_iff
  proof
    fix cv
    assume "cv \<in> set (splitters_scored (new_events w (snd (invoke lib x y i w))))"
    with invoke_scored_subset [of w lib x y i] sh
    have "cv = Splitter (inv_validator i)
        [(''n_splits'', PInt (inv_n_splits i)), (''shuffle'', PBool True), (''random_state'', PInt 52)]"
      by auto
    then show "map_of (splitter_kwargs cv) ''random_state'' = Some (PInt 52)
        \<and> (\<forall>g1 g2 ys. fold_assignment lib cv g1 ys = fold_assignment lib cv g2 ys)"
      by simp
  qed
next
  fix x y w i
  assume i: "i \<in> set cell7"
  then have sh: "\<not> truthy (inv_shuffle i)"
    by (auto simp: cell7_def)
  show "list_all (\<lambda>cv. map_of (splitter_kwargs cv) ''random_state'' = None
                        \<and> (\<forall>g ys. fold_assignment lib cv g ys = lib_folds lib cv (Global g) ys))
           (splitters_scored (new_events w (snd (invoke lib x y i w))))"
    unfolding list_all_iff
  proof
    fix cv
    assume "cv \<in> set (splitters_scored (new_events w (snd (invoke lib x y i w))))"
    with invoke_scored_subset [of w lib x y i] sh
    have "cv = Splitter (inv_validator i) [(''n_splits'', PInt (inv_n_splits i))]"
      by auto
    then show "map_of (splitter_kwargs cv) ''random_state'' = None
        \<and> (\<forall>g ys. fold_assignment lib cv g ys = lib_folds lib cv (Global g) ys)"
      by simp
  qed
qed

theorem partitions_fixed_by_seed_witness:
  "fst (cell8 demo_library demo_x demo_y demo_kernel)
     = Inr ((take_rows demo_x [2, 1, 0], take_rows demo_x [4, 3],
             [PStr ''Iris-setosa'', PStr ''Iris-setosa'', PStr ''Iris-setosa''],
             [PStr ''Iris-setosa'', PStr ''Iris-setosa'']), notebook_best)
   \<and> fst (cell8 demo_library demo_x demo_y (demo_kernel\<lparr>rng := 7\<rparr>))
     = Inr ((take_rows demo_x [2, 1, 0], take_rows demo_x [4, 3],
             [PStr ''Iris-setosa'', PStr ''Iris-setosa'', PStr ''Iris-setosa''],
             [PStr ''Iris-setosa'', PStr ''Iris-setosa'']), notebook_best)
   \<and> splitters_scored (new_events demo_kernel (snd (invoke demo_library demo_x demo_y (hd cell4) demo_kernel)))
     = [Splitter KFold [(''n_splits'', PInt 5), (''shuffle'', PBool True), (''random_state'', PInt 52)]]
   \<and> fold_assignment demo_library
        (Splitter KFold [(''n_splits'', PInt 5), (''shuffle'', PBool True), (''random_state'', PInt 52)])
        0 demo_y
     = fold_assignment demo_library
        (Splitter KFold [(''n_splits'', PInt 5), (''shuffle'', PBool True), (''random_state'', PInt 52)])
        1 demo_y
   \<and> splitters_scored (new_events demo_kernel (snd (invoke demo_library demo_x demo_y (hd cell7) demo_kernel)))
     = [Splitter StratifiedShuffleSplit [(''n_splits'', PInt 15)]]
   \<and> fold_assignment demo_library (Splitter StratifiedShuffleSplit [(''n_splits'', PInt 15)]) 3 demo_y
     = lib_folds demo_library (Splitter StratifiedShuffleSplit [(''n_splits'', PInt 15)]) (Global 3) demo_y"
proof -
  note inst = partitions_fixed_by_seed [of demo_library]
  have first: "hd cell4 \<in> set (cell4 @ cell5 @ cell6)" and last: "hd cell7 \<in> set cell7"
    by (simp_all add: cell4_def cell7_def)
  have s4: "splitters_scored (new_events demo_kernel (snd (invoke demo_library demo_x demo_y (hd cell4) demo_kernel)))
     = [Splitter KFold [(''n_splits'', PInt 5), (''shuffle'', PBool True), (''random_state'', PInt 52)]]"
    by (simp add: demo_scored cell4_def)
  have s7: "splitters_scored (new_events demo_kernel (snd (invoke demo_library demo_x demo_y (hd cell7) demo_kernel)))
     = [Splitter StratifiedShuffleSplit [(''n_splits'', PInt 15)]]"
    by (simp add: demo_scored cell7_def)
  note seeded = inst [THEN conjunct2, THEN conjunct1, rule_format, OF first,
      of demo_kernel demo_x demo_y, unfolded s4 list_all_Cons_iff, THEN conjunct1, THEN conjunct2,
      rule_format]
  note unseeded = inst [THEN conjunct2, THEN conjunct2, rule_format, OF last,
      of demo_kernel demo_x demo_y, unfolded s7 list_all_Cons_iff, THEN conjunct1, THEN conjunct2,
      rule_format]
  show ?thesis
  proof (intro conjI)
    show "fst (cell8 demo_library demo_x demo_y demo_kernel)
     = Inr ((take_rows demo_x [2, 1, 0], take_rows demo_x [4, 3],
             [PStr ''Iris-setosa'', PStr ''Iris-setosa'', PStr ''Iris-setosa''],
             [PStr ''Iris-setosa'', PStr ''Iris-setosa'']), notebook_best)"
      by (rule demo_cell8)
    show "fst (cell8 demo_library demo_x demo_y (demo_kernel\<lparr>rng := 7\<rparr>))
     = Inr ((take_rows demo_x [2, 1, 0], take_rows demo_x [4, 3],
             [PStr ''Iris-setosa'', PStr ''Iris-setosa'', PStr ''Iris-setosa''],
             [PStr ''Iris-setosa'', PStr ''Iris-setosa'']), notebook_best)"
      by (rule demo_cell8)
    show "splitters_scored (new_events demo_kernel (snd (invoke demo_library demo_x demo_y (hd cell4) demo_kernel)))
     = [Splitter KFold [(''n_splits'', PInt 5), (''shuffle'', PBool True), (''random_state'', PInt 52)]]"
      by (rule s4)
    show "fold_assignment demo_library
        (Splitter KFold [(''n_splits'', PInt 5), (''shuffle'', PBool True), (''random_state'', PInt 52)])
        0 demo_y
     = fold_assignment demo_library
        (Splitter KFold [(''n_splits'', PInt 5), (''shuffle'', PBool True), (''random_state'', PInt 52)])
        1 demo_y"
      by (rule seeded)
    show "splitters_scored (new_events demo_kernel (snd (invoke demo_library demo_x demo_y (hd cell7) demo_kernel)))
     = [Splitter StratifiedShuffleSplit [(''n_splits'', PInt 15)]]"
      by (rule s7)
    show "fold_assignment demo_library (Splitter StratifiedShuffleSplit [(''n_splits'', PInt 15)]) 3 demo_y
     = lib_folds demo_library (Splitter StratifiedShuffleSplit [(''n_splits'', PInt 15)]) (Global 3) demo_y"
      by (rule unseeded)
  qed
qed

text \<open>
  C10 as the spec states it fails: the splitter of the first call of cell 7 carries no
  seed, and with a library whose global generator matters its folds differ between two
  generator states.
\<close>

theorem partitions_unseeded_counterexample:
  "splitters_scored (new_events demo_kernel (snd (invoke demo_library demo_x demo_y (hd cell7) demo_kernel)))
     = [Splitter StratifiedShuffleSplit [(''n_splits'', PInt 15)]]
   \<and> map_of [(''n_splits'', PInt 15)] ''random_state'' = None
   \<and> fold_assignment demo_library (Splitter StratifiedShuffleSplit [(''n_splits'', PInt 15)]) 0 demo_y
       \<noteq> fold_assignment demo_library (Splitter StratifiedShuffleSplit [(''n_splits'', PInt 15)]) 1 demo_y"
proof (intro conjI)
  show "splitters_scored (new_events demo_kernel (snd (invoke demo_library demo_x demo_y (hd cell7) demo_kernel)))
     = [Splitter StratifiedShuffleSplit [(''n_splits'', PInt 15)]]"
    by (simp add: demo_scored cell7_def)
  show "map_of [(''n_splits'', PInt 15)] ''random_state'' = None"
    by simp
  show "fold_assignment demo_library (Splitter StratifiedShuffleSplit [(''n_splits'', PInt 15)]) 0 demo_y
       \<noteq> fold_assignment demo_library (Splitter StratifiedShuffleSplit [(''n_splits'', PInt 15)]) 1 demo_y"
    by (simp add: demo_library_def)
qed

end
